theory Spec2Isabelle
  imports Complex_Main "HOL-Library.Log_Nat"
begin

section \<open>The GPIO driver as the controller uses it\<close>

text \<open>
  The controller in \<^verbatim>\<open>src/Raspberry/index.py\<close> drives an L298N bridge through the
  RPi.GPIO module. The module's state is a record: whether a numbering mode has been
  chosen, the warnings switch, the channels configured as outputs and the level last
  written to each channel. RPi.GPIO is a library outside the repository; it is
  modelled by what its calls are documented to do and to refuse. A driver call that
  RPi.GPIO rejects raises a Python exception; the state written so far stays written.
  A call is therefore a function from the state to an optional exception and the new
  state.

  Clock readings, velocities and duty cycles are Python floats in the source; they are
  rational numbers here. Integer speeds are embedded with \<open>of_int\<close>. Every call of
  \<^verbatim>\<open>time.time()\<close> is an argument of the function that makes it; a command that reads
  the clock twice is given one reading for both.
\<close>

datatype level = LOW | HIGH

datatype exn = RuntimeError | ValueError | IndexError

record gpio =
  mode_set :: bool
  warnings :: bool
  outputs :: "nat set"
  level :: "nat \<Rightarrow> level"

type_synonym 's step = "'s \<Rightarrow> exn option \<times> 's"

text \<open>A block of statements: the first exception ends the block.\<close>

fun steps :: "'s step list \<Rightarrow> 's step" where
  "steps [] s = (None, s)"
| "steps (f # fs) s = (case f s of (None, s') \<Rightarrow> steps fs s' | (Some e, s') \<Rightarrow> (Some e, s'))"

text \<open>\<^verbatim>\<open>try: body  except Exception as e: handler(e)\<close>\<close>

definition try_except :: "'s step \<Rightarrow> (exn \<Rightarrow> 's step) \<Rightarrow> 's step" where
  "try_except body handler s =
     (case body s of (None, s') \<Rightarrow> (None, s') | (Some e, s') \<Rightarrow> handler e s')"

definition pure_step :: "('s \<Rightarrow> 's) \<Rightarrow> 's step" where
  "pure_step f s = (None, f s)"

definition GPIO_setmode :: "gpio step" where
  "GPIO_setmode g = (None, g\<lparr>mode_set := True\<rparr>)"

definition GPIO_setwarnings :: "bool \<Rightarrow> gpio step" where
  "GPIO_setwarnings b g = (None, g\<lparr>warnings := b\<rparr>)"

text \<open>\<^verbatim>\<open>GPIO.setup(pin, GPIO.OUT)\<close>: refused until a numbering mode is set.\<close>

definition GPIO_setup :: "nat \<Rightarrow> gpio step" where
  "GPIO_setup p g =
     (if mode_set g then (None, g\<lparr>outputs := insert p (outputs g)\<rparr>)
      else (Some RuntimeError, g))"

text \<open>\<^verbatim>\<open>GPIO.output(pin, v)\<close>: refused on a channel that is not set up as an output.\<close>

definition GPIO_output :: "nat \<Rightarrow> level \<Rightarrow> gpio step" where
  "GPIO_output p v g =
     (if mode_set g \<and> p \<in> outputs g then (None, g\<lparr>level := (level g)(p := v)\<rparr>)
      else (Some RuntimeError, g))"

text \<open>\<^verbatim>\<open>GPIO.cleanup()\<close>: every channel goes back to input, the mode is forgotten.\<close>

definition GPIO_cleanup :: "gpio step" where
  "GPIO_cleanup g = (None, g\<lparr>mode_set := False, outputs := {}\<rparr>)"

record pwm =
  channel :: nat
  frequency :: nat
  dutycycle :: rat
  running :: bool

text \<open>\<^verbatim>\<open>GPIO.PWM(pin, freq)\<close> needs an output channel.\<close>

definition GPIO_PWM :: "nat \<Rightarrow> nat \<Rightarrow> gpio \<Rightarrow> exn + pwm" where
  "GPIO_PWM p f g =
     (if mode_set g \<and> p \<in> outputs g
      then Inr \<lparr>channel = p, frequency = f, dutycycle = 0, running = False\<rparr>
      else Inl RuntimeError)"

text \<open>
  RPi.GPIO takes a duty cycle as a C \<^verbatim>\<open>float\<close>: the Python number is narrowed to single
  precision (24 significant bits, nearest value, ties to the even one, subnormals below
  \<open>2 powi - 126\<close>) before anything else is done with it. \<open>binade x\<close> is the exponent of
  the power of two at or below \<open>|x|\<close>, \<open>float_spacing x\<close> the distance between neighbouring
  floats there. A result beyond the largest float is infinite in C; here it stays the
  rounded number, which is above 100 all the same.
\<close>

definition binade :: "rat \<Rightarrow> int" where
  "binade x =
     (if 1 \<le> \<bar>x\<bar> then bitlen \<lfloor>\<bar>x\<bar>\<rfloor> - 1 else - bitlen (\<lceil>1 / \<bar>x\<bar>\<rceil> - 1))"

definition round_half_even :: "rat \<Rightarrow> int" where
  "round_half_even y =
     (let n = \<lfloor>y\<rfloor>; r = y - of_int n
      in if r < 1 / 2 then n else if 1 / 2 < r then n + 1 else if even n then n else n + 1)"

definition float_spacing :: "rat \<Rightarrow> rat" where
  "float_spacing x = 2 powi (max (binade x) (- 126) - 23)"

definition c_float :: "rat \<Rightarrow> rat" where
  "c_float x =
     (if x = 0 then 0
      else of_int (round_half_even (x / float_spacing x)) * float_spacing x)"

text \<open>
  The duty cycle is a percentage: RPi.GPIO raises ValueError when the narrowed value is
  below 0 or above 100 and leaves the channel as it was; otherwise the channel holds the
  narrowed value.
\<close>

definition pwm_start :: "rat \<Rightarrow> pwm step" where
  "pwm_start dc p =
     (let d = c_float dc
      in if d < 0 \<or> 100 < d then (Some ValueError, p)
         else (None, p\<lparr>dutycycle := d, running := True\<rparr>))"

definition ChangeDutyCycle :: "rat \<Rightarrow> pwm step" where
  "ChangeDutyCycle dc p =
     (let d = c_float dc
      in if d < 0 \<or> 100 < d then (Some ValueError, p)
         else (None, p\<lparr>dutycycle := d\<rparr>))"

definition pwm_stop :: "pwm step" where
  "pwm_stop p = (None, p\<lparr>running := False\<rparr>)"

section \<open>Module constants\<close>

definition WATCHDOG_TIMEOUT :: rat where
  "WATCHDOG_TIMEOUT = 2"

definition HEARTBEAT_INTERVAL :: rat where
  "HEARTBEAT_INTERVAL = 1 / 2"

datatype pin_name = IN1 | IN2 | IN3 | IN4 | ENA | ENB

text \<open>The dictionary \<^verbatim>\<open>MOTOR_PINS\<close> (BCM numbering) and its keys in insertion order.\<close>

fun MOTOR_PINS :: "pin_name \<Rightarrow> nat" where
  "MOTOR_PINS IN1 = 23"
| "MOTOR_PINS IN2 = 24"
| "MOTOR_PINS IN3 = 25"
| "MOTOR_PINS IN4 = 8"
| "MOTOR_PINS ENA = 18"
| "MOTOR_PINS ENB = 12"

definition MOTOR_PINS_keys :: "pin_name list" where
  "MOTOR_PINS_keys = [IN1, IN2, IN3, IN4, ENA, ENB]"

definition WATCHDOG_PIN :: nat where
  "WATCHDOG_PIN = 7"

section \<open>The module-level emergency stop\<close>

datatype event = Printed string | Info string | Warn string

text \<open>
  \<^verbatim>\<open>emergency_stop()\<close> is registered with atexit and the SIGTERM and SIGINT handlers and
  is called last in \<^verbatim>\<open>main\<close>. It takes nothing but the driver: it sets the mode
  and configures each pin of \<^verbatim>\<open>MOTOR_PINS\<close> itself before writing LOW. The printed line
  is returned beside the driver state (the text of the exception is left out).
\<close>

definition emergency_stop :: "gpio \<Rightarrow> event \<times> gpio" where
  "emergency_stop g =
     (case steps
        ([GPIO_setmode, GPIO_setwarnings False]
         @ concat (map (\<lambda>n. [GPIO_setup (MOTOR_PINS n), GPIO_output (MOTOR_PINS n) LOW])
                    MOTOR_PINS_keys)
         @ (if WATCHDOG_PIN \<noteq> 0
            then [GPIO_setup WATCHDOG_PIN, GPIO_output WATCHDOG_PIN LOW] else [])) g of
        (None, g') \<Rightarrow> (Printed ''Emergency stop executed'', g')
      | (Some e, g') \<Rightarrow> (Printed ''Emergency stop error'', g'))"

section \<open>SafeMotorController\<close>

record robot =
  hw :: gpio
  pwm_a :: pwm
  pwm_b :: pwm
  pwm_freq :: nat
  current_speed :: int
  last_command_time :: rat
  is_moving :: bool
  watchdog_active :: bool
  console :: "event list"

definition on_hw :: "gpio step \<Rightarrow> robot step" where
  "on_hw f s = (case f (hw s) of (e, g) \<Rightarrow> (e, s\<lparr>hw := g\<rparr>))"

definition on_pwm_a :: "pwm step \<Rightarrow> robot step" where
  "on_pwm_a f s = (case f (pwm_a s) of (e, p) \<Rightarrow> (e, s\<lparr>pwm_a := p\<rparr>))"

definition on_pwm_b :: "pwm step \<Rightarrow> robot step" where
  "on_pwm_b f s = (case f (pwm_b s) of (e, p) \<Rightarrow> (e, s\<lparr>pwm_b := p\<rparr>))"

definition emit :: "event \<Rightarrow> robot step" where
  "emit ev s = (None, s\<lparr>console := console s @ [ev]\<rparr>)"

definition set_is_moving :: "bool \<Rightarrow> robot step" where
  "set_is_moving b s = (None, s\<lparr>is_moving := b\<rparr>)"

text \<open>
  \<^verbatim>\<open>__init__\<close>, from the driver state it finds and the clock reading it takes. The two
  threads it starts are the loops below.
\<close>

definition SafeMotorController_init :: "rat \<Rightarrow> gpio \<Rightarrow> (exn \<times> gpio) + robot" where
  "SafeMotorController_init now g =
     (case steps
        ([GPIO_setmode, GPIO_setwarnings False]
         @ concat (map (\<lambda>n. [GPIO_setup (MOTOR_PINS n), GPIO_output (MOTOR_PINS n) LOW])
                    MOTOR_PINS_keys)
         @ (if WATCHDOG_PIN \<noteq> 0
            then [GPIO_setup WATCHDOG_PIN, GPIO_output WATCHDOG_PIN HIGH] else [])) g of
        (Some e, g1) \<Rightarrow> Inl (e, g1)
      | (None, g1) \<Rightarrow>
          (case GPIO_PWM (MOTOR_PINS ENA) 1000 g1 of
             Inl e \<Rightarrow> Inl (e, g1)
           | Inr a \<Rightarrow>
               (case GPIO_PWM (MOTOR_PINS ENB) 1000 g1 of
                  Inl e \<Rightarrow> Inl (e, g1)
                | Inr b \<Rightarrow>
                    (case pwm_start 0 a of
                       (Some e, a1) \<Rightarrow> Inl (e, g1)
                     | (None, a1) \<Rightarrow>
                         (case pwm_start 0 b of
                            (Some e, b1) \<Rightarrow> Inl (e, g1)
                          | (None, b1) \<Rightarrow>
                              Inr \<lparr>hw = g1, pwm_a = a1, pwm_b = b1, pwm_freq = 1000,
                                   current_speed = 70, last_command_time = now,
                                   is_moving = False, watchdog_active = True,
                                   console =
                                     [Printed ''Safe Motor Controller initialized with watchdog protection'']\<rparr>)))))"

definition update_command_time :: "rat \<Rightarrow> robot \<Rightarrow> robot" where
  "update_command_time now s = s\<lparr>last_command_time := now\<rparr>"

text \<open>
  \<^verbatim>\<open>_emergency_stop_motors\<close>: the whole body is inside try/except, so no exception
  leaves it. It writes outputs only: neither the timestamp nor \<open>is_moving\<close>.
\<close>

definition emergency_stop_motors :: "robot step" where
  "emergency_stop_motors =
     try_except
       (steps
          ([on_pwm_a (ChangeDutyCycle 0), on_pwm_b (ChangeDutyCycle 0)]
           @ map (\<lambda>n. on_hw (GPIO_output (MOTOR_PINS n) LOW)) [IN1, IN2, IN3, IN4]
           @ (if WATCHDOG_PIN \<noteq> 0 then [on_hw (GPIO_output WATCHDOG_PIN LOW)] else [])))
       (\<lambda>e. emit (Printed ''Emergency stop error''))"

text \<open>The speed a movement applies: \<^verbatim>\<open>if speed is None: speed = self.current_speed\<close>.\<close>

definition effective_speed :: "rat option \<Rightarrow> robot \<Rightarrow> rat" where
  "effective_speed speed s = (case speed of None \<Rightarrow> of_int (current_speed s) | Some v \<Rightarrow> v)"

text \<open>
  The four movements differ in the levels they write to IN1..IN4 only; each is written
  out as in the source, with no clamping of \<open>speed\<close> and no try/except.
\<close>

definition move_forward :: "rat option \<Rightarrow> rat \<Rightarrow> robot step" where
  "move_forward speed now s0 =
     (let s = update_command_time now s0; sp = effective_speed speed s in
      steps
        [(if WATCHDOG_PIN \<noteq> 0 then on_hw (GPIO_output WATCHDOG_PIN HIGH) else steps []),
         on_hw (GPIO_output (MOTOR_PINS IN1) HIGH),
         on_hw (GPIO_output (MOTOR_PINS IN2) LOW),
         on_hw (GPIO_output (MOTOR_PINS IN3) HIGH),
         on_hw (GPIO_output (MOTOR_PINS IN4) LOW),
         on_pwm_a (ChangeDutyCycle sp),
         on_pwm_b (ChangeDutyCycle sp),
         set_is_moving True] s)"

definition move_backward :: "rat option \<Rightarrow> rat \<Rightarrow> robot step" where
  "move_backward speed now s0 =
     (let s = update_command_time now s0; sp = effective_speed speed s in
      steps
        [(if WATCHDOG_PIN \<noteq> 0 then on_hw (GPIO_output WATCHDOG_PIN HIGH) else steps []),
         on_hw (GPIO_output (MOTOR_PINS IN1) LOW),
         on_hw (GPIO_output (MOTOR_PINS IN2) HIGH),
         on_hw (GPIO_output (MOTOR_PINS IN3) LOW),
         on_hw (GPIO_output (MOTOR_PINS IN4) HIGH),
         on_pwm_a (ChangeDutyCycle sp),
         on_pwm_b (ChangeDutyCycle sp),
         set_is_moving True] s)"

definition turn_left :: "rat option \<Rightarrow> rat \<Rightarrow> robot step" where
  "turn_left speed now s0 =
     (let s = update_command_time now s0; sp = effective_speed speed s in
      steps
        [(if WATCHDOG_PIN \<noteq> 0 then on_hw (GPIO_output WATCHDOG_PIN HIGH) else steps []),
         on_hw (GPIO_output (MOTOR_PINS IN1) LOW),
         on_hw (GPIO_output (MOTOR_PINS IN2) HIGH),
         on_hw (GPIO_output (MOTOR_PINS IN3) HIGH),
         on_hw (GPIO_output (MOTOR_PINS IN4) LOW),
         on_pwm_a (ChangeDutyCycle sp),
         on_pwm_b (ChangeDutyCycle sp),
         set_is_moving True] s)"

definition turn_right :: "rat option \<Rightarrow> rat \<Rightarrow> robot step" where
  "turn_right speed now s0 =
     (let s = update_command_time now s0; sp = effective_speed speed s in
      steps
        [(if WATCHDOG_PIN \<noteq> 0 then on_hw (GPIO_output WATCHDOG_PIN HIGH) else steps []),
         on_hw (GPIO_output (MOTOR_PINS IN1) HIGH),
         on_hw (GPIO_output (MOTOR_PINS IN2) LOW),
         on_hw (GPIO_output (MOTOR_PINS IN3) LOW),
         on_hw (GPIO_output (MOTOR_PINS IN4) HIGH),
         on_pwm_a (ChangeDutyCycle sp),
         on_pwm_b (ChangeDutyCycle sp),
         set_is_moving True] s)"

definition stop :: "rat \<Rightarrow> robot step" where
  "stop now s0 =
     steps
       ([on_pwm_a (ChangeDutyCycle 0), on_pwm_b (ChangeDutyCycle 0)]
        @ map (\<lambda>n. on_hw (GPIO_output (MOTOR_PINS n) LOW)) [IN1, IN2, IN3, IN4]
        @ [set_is_moving False]) (update_command_time now s0)"

definition set_speed :: "int \<Rightarrow> rat \<Rightarrow> robot \<Rightarrow> robot" where
  "set_speed speed now s0 =
     (update_command_time now s0)\<lparr>current_speed := max 0 (min 100 speed)\<rparr>"

definition cleanup :: "robot step" where
  "cleanup =
     steps
       [emit (Printed ''Cleaning up motor controller...''),
        pure_step (\<lambda>s. s\<lparr>watchdog_active := False\<rparr>),
        emergency_stop_motors,
        on_pwm_a pwm_stop,
        on_pwm_b pwm_stop,
        on_hw GPIO_cleanup,
        emit (Printed ''Motor controller cleanup complete'')]"

text \<open>
  The hook in a process that holds a controller. \<^verbatim>\<open>emergency_stop()\<close> is a module
  function with no reference to the instance: of the controller's state it reaches the
  driver only.
\<close>

definition at_exit :: "robot \<Rightarrow> event \<times> robot" where
  "at_exit s = (case emergency_stop (hw s) of (ev, g) \<Rightarrow> (ev, s\<lparr>hw := g\<rparr>))"

section \<open>The two monitoring loops\<close>

text \<open>
  One pass of the body of \<^verbatim>\<open>_watchdog_loop\<close>, with the clock reading it takes. The
  sleep changes no state. The loop itself runs one pass per reading while
  \<open>watchdog_active\<close> holds; an exception that left a pass would end the thread.
\<close>

definition watchdog_tick :: "rat \<Rightarrow> robot step" where
  "watchdog_tick current_time =
     try_except
       (\<lambda>s. if current_time - last_command_time s > WATCHDOG_TIMEOUT
            then (if is_moving s
                  then steps [emit (Printed ''Watchdog timeout - stopping motors''),
                              emergency_stop_motors,
                              set_is_moving False] s
                  else (None, s))
            else (None, s))
       (\<lambda>e. steps [emit (Printed ''Watchdog error''), emergency_stop_motors])"

fun watchdog_loop :: "rat list \<Rightarrow> robot step" where
  "watchdog_loop [] s = (None, s)"
| "watchdog_loop (t # ts) s =
     (if watchdog_active s
      then (case watchdog_tick t s of
              (None, s') \<Rightarrow> watchdog_loop ts s'
            | (Some e, s') \<Rightarrow> (Some e, s'))
      else (None, s))"

text \<open>
  One pass of the body of \<^verbatim>\<open>_heartbeat_loop\<close>; \<open>heartbeat_state\<close> is the loop's local
  variable, passed in and returned.
\<close>

definition heartbeat_tick :: "bool \<Rightarrow> robot \<Rightarrow> bool \<times> robot" where
  "heartbeat_tick heartbeat_state s =
     (if WATCHDOG_PIN \<noteq> 0 \<and> is_moving s
      then (case on_hw (GPIO_output WATCHDOG_PIN (if heartbeat_state then HIGH else LOW)) s of
              (None, s') \<Rightarrow> (\<not> heartbeat_state, s')
            | (Some e, s') \<Rightarrow>
                (heartbeat_state, s'\<lparr>console := console s' @ [Printed ''Heartbeat error'']\<rparr>))
      else if WATCHDOG_PIN \<noteq> 0
      then (case on_hw (GPIO_output WATCHDOG_PIN HIGH) s of
              (None, s') \<Rightarrow> (heartbeat_state, s')
            | (Some e, s') \<Rightarrow>
                (heartbeat_state, s'\<lparr>console := console s' @ [Printed ''Heartbeat error'']\<rparr>))
      else (heartbeat_state, s))"

section \<open>Command dispatch\<close>

text \<open>
  \<^verbatim>\<open>str.lower()\<close> on ASCII letters; other bytes are kept. The node's logger writes to the
  same console as the controller's prints.
\<close>

definition lower_char :: "char \<Rightarrow> char" where
  "lower_char c =
     (case map_of (zip ''ABCDEFGHIJKLMNOPQRSTUVWXYZ'' ''abcdefghijklmnopqrstuvwxyz'') c of
        Some d \<Rightarrow> d
      | None \<Rightarrow> c)"

definition lower :: "string \<Rightarrow> string" where
  "lower s = map lower_char s"

definition execute_command :: "string \<Rightarrow> rat \<Rightarrow> robot step" where
  "execute_command command0 now =
     (let command = lower command0 in
      if command = ''forward'' then steps [move_forward None now, emit (Info ''Moving forward'')]
      else if command = ''backward'' then steps [move_backward None now, emit (Info ''Moving backward'')]
      else if command = ''left'' then steps [turn_left None now, emit (Info ''Turning left'')]
      else if command = ''right'' then steps [turn_right None now, emit (Info ''Turning right'')]
      else if command = ''stop'' then steps [stop now, emit (Info ''Stopping'')]
      else if command = ''emergency_stop''
      then steps [emergency_stop_motors, emit (Warn ''Emergency stop executed'')]
      else emit (Warn (''Unknown command: '' @ command)))"

definition command_callback :: "string \<Rightarrow> rat \<Rightarrow> robot step" where
  "command_callback data now = execute_command (lower data) now"

text \<open>\<^verbatim>\<open>cmd_vel_callback\<close>: a Twist message's \<open>linear.x\<close> and \<open>angular.z\<close>.\<close>

definition cmd_vel_callback :: "rat \<Rightarrow> rat \<Rightarrow> rat \<Rightarrow> robot step" where
  "cmd_vel_callback linear_x angular_z now s0 =
     (let s = update_command_time now s0 in
      if \<bar>linear_x\<bar> > \<bar>angular_z\<bar>
      then (if linear_x > 0 then move_forward (Some \<bar>linear_x * 100\<bar>) now s
            else if linear_x < 0 then move_backward (Some \<bar>linear_x * 100\<bar>) now s
            else (None, s))
      else if \<bar>angular_z\<bar> > 1 / 10
      then (if angular_z > 0 then turn_left (Some \<bar>angular_z * 100\<bar>) now s
            else turn_right (Some \<bar>angular_z * 100\<bar>) now s)
      else stop now s)"

section \<open>The HTTP control handler\<close>

text \<open>
  Python's \<^verbatim>\<open>int(str)\<close> on ASCII text: surrounding whitespace is dropped, one sign is
  allowed, then decimal digits, with single underscores between digits. Anything else
  raises ValueError.
\<close>

definition is_space :: "char \<Rightarrow> bool" where
  "is_space c = (c \<in> set [CHR '' '', CHR 0x09, CHR 0x0A, CHR 0x0B, CHR 0x0C, CHR 0x0D])"

definition strip :: "string \<Rightarrow> string" where
  "strip s = rev (dropWhile is_space (rev (dropWhile is_space s)))"

definition digit_val :: "char \<Rightarrow> nat option" where
  "digit_val = map_of (zip ''0123456789'' [0 ..< 10])"

fun int_digits :: "nat \<Rightarrow> string \<Rightarrow> nat option" where
  "int_digits acc [] = Some acc"
| "int_digits acc [c] =
     (case digit_val c of None \<Rightarrow> None | Some v \<Rightarrow> Some (10 * acc + v))"
| "int_digits acc (c # d # ds) =
     (if c = CHR ''_''
      then (case digit_val d of None \<Rightarrow> None | Some v \<Rightarrow> int_digits (10 * acc + v) ds)
      else (case digit_val c of None \<Rightarrow> None | Some v \<Rightarrow> int_digits (10 * acc + v) (d # ds)))"

definition py_int :: "string \<Rightarrow> exn + int" where
  "py_int s =
     (let t = strip s;
          neg = (case t of [] \<Rightarrow> False | c # cs \<Rightarrow> c = CHR ''-'');
          body = (case t of [] \<Rightarrow> [] | c # cs \<Rightarrow> if c = CHR ''-'' \<or> c = CHR ''+'' then cs else t)
      in case body of
           [] \<Rightarrow> Inl ValueError
         | d # ds \<Rightarrow>
             (case digit_val d of
                None \<Rightarrow> Inl ValueError
              | Some v \<Rightarrow>
                  (case int_digits v ds of
                     None \<Rightarrow> Inl ValueError
                   | Some n \<Rightarrow> Inr (if neg then - int n else int n))))"

text \<open>
  What a request gets back: a response with a status and a body, an error page, or an
  exception that leaves the handler with nothing sent.
\<close>

datatype body = SpeedSetTo int | CommandExecuted string | EmergencyStopExecuted

datatype http_result = Response nat body | SendError nat | Raised exn

text \<open>
  \<^verbatim>\<open>handle_control_command\<close>, from the dictionary \<^verbatim>\<open>parse_qs\<close> returns for the query
  string (each key with the list of its values). \<open>robot_node\<close> may be absent.
\<close>

definition handle_control_command ::
  "(string \<rightharpoonup> string list) \<Rightarrow> rat \<Rightarrow> robot option \<Rightarrow> http_result \<times> robot option" where
  "handle_control_command params now robot_node =
     (case params ''cmd'' of
        None \<Rightarrow> (SendError 400, robot_node)
      | Some [] \<Rightarrow> (Raised IndexError, robot_node)
      | Some (command # _) \<Rightarrow>
          (case (if command = ''speed'' then params ''value'' else None) of
             Some [] \<Rightarrow> (Raised IndexError, robot_node)
           | Some (v # _) \<Rightarrow>
               (case py_int v of
                  Inl e \<Rightarrow> (Raised e, robot_node)
                | Inr speed_value \<Rightarrow>
                    (Response 200 (SpeedSetTo speed_value),
                     map_option (set_speed speed_value now) robot_node))
           | None \<Rightarrow>
               (case robot_node of
                  None \<Rightarrow> (Response 200 (CommandExecuted command), None)
                | Some r \<Rightarrow>
                    (case execute_command command now r of
                       (None, r') \<Rightarrow> (Response 200 (CommandExecuted command), Some r')
                     | (Some e, r') \<Rightarrow> (Raised e, Some r')))))"

definition handle_emergency_stop :: "robot option \<Rightarrow> http_result \<times> robot option" where
  "handle_emergency_stop robot_node =
     (case robot_node of
        None \<Rightarrow> (Response 200 EmergencyStopExecuted, None)
      | Some r \<Rightarrow>
          (case emergency_stop_motors r of
             (None, r') \<Rightarrow> (Response 200 EmergencyStopExecuted, Some r')
           | (Some e, r') \<Rightarrow> (Raised e, Some r')))"

section \<open>Observations and reference states\<close>

text \<open>The levels of IN1, IN2, IN3, IN4 and the duty of the two enable channels.\<close>

definition direction_pins :: "gpio \<Rightarrow> level \<times> level \<times> level \<times> level" where
  "direction_pins g =
     (level g (MOTOR_PINS IN1), level g (MOTOR_PINS IN2),
      level g (MOTOR_PINS IN3), level g (MOTOR_PINS IN4))"

definition enable_duty :: "robot \<Rightarrow> rat \<times> rat" where
  "enable_duty s = (dutycycle (pwm_a s), dutycycle (pwm_b s))"

text \<open>
  The driver as a constructed controller has it until \<^verbatim>\<open>cleanup\<close>: a mode is set and
  the four direction pins and the watchdog pin are outputs.
\<close>

definition pins_configured :: "gpio \<Rightarrow> bool" where
  "pins_configured g =
     (mode_set g \<and> MOTOR_PINS IN1 \<in> outputs g \<and> MOTOR_PINS IN2 \<in> outputs g \<and>
      MOTOR_PINS IN3 \<in> outputs g \<and> MOTOR_PINS IN4 \<in> outputs g \<and> WATCHDOG_PIN \<in> outputs g)"

text \<open>
  What no command changes: the mode, the set of output channels and, \<^verbatim>\<open>set_speed\<close>
  apart, the speed. A controller is live when its pins are configured and its speed is a
  percentage; \<^verbatim>\<open>__init__\<close> makes it so and only \<^verbatim>\<open>cleanup\<close> ends it.
\<close>

definition setup_of :: "robot \<Rightarrow> bool \<times> nat set \<times> int" where
  "setup_of s = (mode_set (hw s), outputs (hw s), current_speed s)"

definition live :: "robot \<Rightarrow> bool" where
  "live s = (pins_configured (hw s) \<and> 0 \<le> current_speed s \<and> current_speed s \<le> 100)"

text \<open>The clamp of the specification: \<open>p\<close> brought into \<open>[lo, hi]\<close>.\<close>

definition spec_clamp :: "int \<Rightarrow> int \<Rightarrow> int \<Rightarrow> int" where
  "spec_clamp p lo hi = (if p < lo then lo else if hi < p then hi else p)"

text \<open>
  The driver of a process that has configured nothing yet, and the controller
  \<^verbatim>\<open>__init__\<close> builds from it at time 0.
\<close>

definition fresh_gpio :: gpio where
  "fresh_gpio = \<lparr>mode_set = False, warnings = True, outputs = {}, level = (\<lambda>_. HIGH)\<rparr>"

definition idle_robot :: robot where
  "idle_robot =
     \<lparr>hw = \<lparr>mode_set = True, warnings = False, outputs = {7, 12, 18, 8, 25, 24, 23},
              level = (\<lambda>p. if p \<in> {23, 24, 25, 8, 18, 12} then LOW else HIGH)\<rparr>,
      pwm_a = \<lparr>channel = 18, frequency = 1000, dutycycle = 0, running = True\<rparr>,
      pwm_b = \<lparr>channel = 12, frequency = 1000, dutycycle = 0, running = True\<rparr>,
      pwm_freq = 1000, current_speed = 70, last_command_time = 0,
      is_moving = False, watchdog_active = True,
      console = [Printed ''Safe Motor Controller initialized with watchdog protection'']\<rparr>"

definition cruising_robot :: robot where
  "cruising_robot = snd (execute_command ''forward'' 0 idle_robot)"

section \<open>Narrowing to a C float\<close>

lemma bitlen_pos: "0 < n \<Longrightarrow> 1 \<le> bitlen n"
  by (simp add: bitlen_alt_def)

lemma binade_lower:
  assumes "x \<noteq> 0"
  shows "2 powi binade x \<le> \<bar>x\<bar>"
proof (cases "1 \<le> \<bar>x\<bar>")
  case True
  let ?n = "\<lfloor>\<bar>x\<bar>\<rfloor>"
  from True have pos: "0 < ?n" by simp
  from bitlen_bounds [OF pos] have "2 ^ nat (bitlen ?n - 1) \<le> ?n" by simp
  then have "(of_int (2 ^ nat (bitlen ?n - 1)) :: rat) \<le> of_int ?n"
    by (simp only: of_int_le_iff)
  also have "\<dots> \<le> \<bar>x\<bar>" by simp
  finally have "(2::rat) ^ nat (bitlen ?n - 1) \<le> \<bar>x\<bar>" by simp
  with True bitlen_pos [OF pos] show ?thesis
    by (simp add: binade_def power_int_nonneg_exp)
next
  case False
  let ?c = "\<lceil>1 / \<bar>x\<bar>\<rceil>"
  let ?m = "bitlen (?c - 1)"
  from False assms have y: "1 < 1 / \<bar>x\<bar>" by simp
  then have c: "0 < ?c - 1" by (simp add: less_ceiling_iff)
  from bitlen_bounds [OF c] have "?c - 1 < 2 ^ nat ?m" by simp
  then have "?c \<le> 2 ^ nat ?m" by simp
  then have "(of_int ?c :: rat) \<le> of_int (2 ^ nat ?m)" by (simp only: of_int_le_iff)
  with le_of_int_ceiling [of "1 / \<bar>x\<bar>"]
  have "1 / \<bar>x\<bar> \<le> of_int (2 ^ nat ?m)" by (rule order_trans)
  then have "1 / \<bar>x\<bar> \<le> 2 ^ nat ?m" by simp
  with assms have "1 / 2 ^ nat ?m \<le> \<bar>x\<bar>"
    by (simp add: field_simps)
  moreover have "2 powi (- ?m) = (1 / 2 ^ nat ?m :: rat)"
    using bitlen_pos [OF c] by (simp add: power_int_minus power_int_nonneg_exp field_simps)
  ultimately show ?thesis using False by (simp add: binade_def)
qed


lemma round_half_even_of_int: "round_half_even (of_int n) = n"
  by (simp add: round_half_even_def)

lemma round_half_even_le:
  assumes "y \<le> of_int N"
  shows "round_half_even y \<le> N"
proof -
  have fl: "\<lfloor>y\<rfloor> \<le> N" using assms by (simp add: floor_le_iff)
  show ?thesis
  proof (cases "y = of_int \<lfloor>y\<rfloor>")
    case True
    then have "round_half_even y = \<lfloor>y\<rfloor>"
      by (simp add: round_half_even_def Let_def)
    with fl show ?thesis by simp
  next
    case False
    then have "of_int \<lfloor>y\<rfloor> < y" using of_int_floor_le [of y] by linarith
    with assms have "(of_int \<lfloor>y\<rfloor> :: rat) < of_int N" by simp
    then have "\<lfloor>y\<rfloor> < N" by (simp only: of_int_less_iff)
    then show ?thesis by (simp add: round_half_even_def Let_def)
  qed
qed

lemma round_half_even_ge:
  assumes "of_int N \<le> y"
  shows "N \<le> round_half_even y"
proof -
  have "N \<le> \<lfloor>y\<rfloor>" using assms by (simp add: le_floor_iff)
  then show ?thesis by (simp add: round_half_even_def Let_def)
qed

lemma float_spacing_pos: "0 < float_spacing x"
  by (simp add: float_spacing_def)

lemma c_float_le_grid:
  assumes "x \<noteq> 0" and "x \<le> b" and "b / float_spacing x = of_int N"
  shows "c_float x \<le> b"
proof -
  let ?q = "float_spacing x"
  have q: "0 < ?q" by (rule float_spacing_pos)
  from assms(2) q have "x / ?q \<le> b / ?q" by (simp add: divide_right_mono)
  with assms(3) have "round_half_even (x / ?q) \<le> N" by (simp add: round_half_even_le)
  then have "(of_int (round_half_even (x / ?q)) :: rat) \<le> of_int N"
    by (simp only: of_int_le_iff)
  with q have "of_int (round_half_even (x / ?q)) * ?q \<le> of_int N * ?q"
    by (simp add: mult_right_mono)
  moreover from assms(3) q have "of_int N * ?q = b" by (simp add: field_simps)
  ultimately show ?thesis using assms(1) by (simp add: c_float_def)
qed

lemma c_float_ge_grid:
  assumes "x \<noteq> 0" and "b \<le> x" and "b / float_spacing x = of_int N"
  shows "b \<le> c_float x"
proof -
  let ?q = "float_spacing x"
  have q: "0 < ?q" by (rule float_spacing_pos)
  from assms(2) q have "b / ?q \<le> x / ?q" by (simp add: divide_right_mono)
  with assms(3) have "N \<le> round_half_even (x / ?q)" by (simp add: round_half_even_ge)
  then have "(of_int N :: rat) \<le> of_int (round_half_even (x / ?q))"
    by (simp only: of_int_le_iff)
  with q have "of_int N * ?q \<le> of_int (round_half_even (x / ?q)) * ?q"
    by (simp add: mult_right_mono)
  moreover from assms(3) q have "of_int N * ?q = b" by (simp add: field_simps)
  ultimately show ?thesis using assms(1) by (simp add: c_float_def)
qed

lemma binade_le:
  assumes "x \<noteq> 0" and "\<bar>x\<bar> < 2 powi n"
  shows "binade x < n"
proof (rule ccontr)
  assume "\<not> binade x < n"
  then have "n \<le> binade x" by simp
  then have "(2::rat) powi n \<le> 2 powi binade x" by (simp add: power_int_increasing)
  with binade_lower [OF assms(1)] assms(2) show False by simp
qed


lemma float_spacing_small:
  assumes "x \<noteq> 0" and "\<bar>x\<bar> < 128"
  obtains j where "17 \<le> j" and "float_spacing x = 1 / 2 ^ j"
proof -
  have "\<bar>x\<bar> < 2 powi 7" using assms(2) by simp
  from binade_le [OF assms(1) this] have k: "max (binade x) (- 126) - 23 \<le> - 17" by simp
  let ?j = "nat (- (max (binade x) (- 126) - 23))"
  have "17 \<le> ?j" using k by simp
  moreover have "float_spacing x = 1 / 2 ^ ?j"
  proof -
    have "max (binade x) (- 126) - 23 = - int ?j" using k by simp
    then have "float_spacing x = 2 powi (- int ?j)" by (simp only: float_spacing_def)
    also have "\<dots> = inverse (2 powi int ?j)" by (rule power_int_minus)
    also have "\<dots> = 1 / 2 ^ ?j" by (simp only: power_int_of_nat inverse_eq_divide)
    finally show ?thesis .
  qed
  ultimately show ?thesis by (rule that)
qed

lemma c_float_range:
  assumes "0 \<le> x" and "x \<le> 100"
  shows "0 \<le> c_float x \<and> c_float x \<le> 100"
proof (cases "x = 0")
  case True
  then show ?thesis by (simp add: c_float_def)
next
  case False
  from assms have "\<bar>x\<bar> < 128" by simp
  from float_spacing_small [OF False this] obtain j
    where q: "float_spacing x = 1 / 2 ^ j" by blast
  have lo: "0 / float_spacing x = of_int 0" by simp
  have hi: "100 / float_spacing x = of_int (100 * 2 ^ j)" by (simp add: q)
  from c_float_ge_grid [OF False assms(1) lo] c_float_le_grid [OF False assms(2) hi]
  show ?thesis by simp
qed

lemma c_float_exact:
  assumes "\<bar>x\<bar> < 128" and "x * 2 ^ 17 = of_int M"
  shows "c_float x = x"
proof (cases "x = 0")
  case True
  then show ?thesis by (simp add: c_float_def)
next
  case False
  from float_spacing_small [OF False assms(1)] obtain j
    where j: "17 \<le> j" and q: "float_spacing x = 1 / 2 ^ j" by blast
  from j have "(2::rat) ^ j = 2 ^ 17 * 2 ^ (j - 17)"
    by (metis le_add_diff_inverse power_add)
  then have "x * 2 ^ j = of_int M * 2 ^ (j - 17)"
    using assms(2) by (simp only: mult.assoc [symmetric])
  then have "x / float_spacing x = of_int (M * 2 ^ (j - 17))"
    by (simp add: q)
  then have "round_half_even (x / float_spacing x) = M * 2 ^ (j - 17)"
    by (simp only: round_half_even_of_int)
  then have "c_float x = of_int (M * 2 ^ (j - 17)) * float_spacing x"
    using False by (simp add: c_float_def)
  also have "\<dots> = (x / float_spacing x) * float_spacing x"
    using \<open>x / float_spacing x = of_int (M * 2 ^ (j - 17))\<close> by simp
  also have "\<dots> = x" using float_spacing_pos [of x] by simp
  finally show ?thesis .
qed

lemma c_float_of_int:
  assumes "\<bar>n\<bar> < 128"
  shows "c_float (of_int n) = of_int n"
proof (rule c_float_exact)
  show "\<bar>of_int n :: rat\<bar> < 128" using assms by (simp flip: of_int_abs)
  show "(of_int n :: rat) * 2 ^ 17 = of_int (n * 2 ^ 17)" by simp
qed




lemma c_float_examples:
  "c_float 0 = 0" "c_float 70 = 70" "c_float 50 = 50" "c_float 100 = 100"
  "c_float (100000001 / 1000000) = 100" "c_float (- (1 / 10 ^ 50)) = 0"
  "100 < c_float 150" "c_float (333 / 10) = 8729395 / 262144"
  by code_simp+

lemma c_float_zero: "c_float 0 = 0"
  by (simp add: c_float_def)

section \<open>Basic facts about the driver calls\<close>

lemma ChangeDutyCycle_eq:
  "ChangeDutyCycle dc p =
     (if c_float dc < 0 \<or> 100 < c_float dc then (Some ValueError, p)
      else (None, p\<lparr>dutycycle := c_float dc\<rparr>))"
  by (simp add: ChangeDutyCycle_def Let_def)

lemma ChangeDutyCycle_zero: "ChangeDutyCycle 0 p = (None, p\<lparr>dutycycle := 0\<rparr>)"
  by (simp add: ChangeDutyCycle_eq c_float_zero)

lemma pwm_start_zero: "pwm_start 0 p = (None, p\<lparr>dutycycle := 0, running := True\<rparr>)"
  by (simp add: pwm_start_def Let_def c_float_zero)

lemmas driver_defs = GPIO_output_def GPIO_setup_def GPIO_setmode_def GPIO_setwarnings_def
  GPIO_cleanup_def ChangeDutyCycle_eq c_float_zero pwm_stop_def pwm_start_zero

lemmas lift_defs = on_hw_def on_pwm_a_def on_pwm_b_def emit_def set_is_moving_def pure_step_def
  try_except_def update_command_time_def

lemma on_hw_output:
  "on_hw (GPIO_output p v) s =
     (if mode_set (hw s) \<and> p \<in> outputs (hw s)
      then (None, s\<lparr>hw := (hw s)\<lparr>level := (level (hw s))(p := v)\<rparr>\<rparr>)
      else (Some RuntimeError, s))"
  by (simp add: on_hw_def GPIO_output_def)

lemma write_all_frame:
  "steps (map (\<lambda>p. on_hw (GPIO_output p v)) ps) s = (e, s') \<Longrightarrow>
     \<exists>L. s' = s\<lparr>hw := (hw s)\<lparr>level := L\<rparr>\<rparr> \<and> (level (hw s) q = v \<longrightarrow> L q = v)"
proof (induction ps arbitrary: s)
  case Nil
  then have "s' = s\<lparr>hw := (hw s)\<lparr>level := level (hw s)\<rparr>\<rparr>" by simp
  then show ?case by blast
next
  case (Cons p ps)
  show ?case
  proof (cases "mode_set (hw s) \<and> p \<in> outputs (hw s)")
    case True
    let ?s1 = "s\<lparr>hw := (hw s)\<lparr>level := (level (hw s))(p := v)\<rparr>\<rparr>"
    have head: "on_hw (GPIO_output p v) s = (None, ?s1)"
      using True by (simp add: on_hw_output)
    from Cons.prems head
    have run: "steps (map (\<lambda>p. on_hw (GPIO_output p v)) ps) ?s1 = (e, s')"
      by simp
    from Cons.IH [OF run] obtain L
      where "s' = ?s1\<lparr>hw := (hw ?s1)\<lparr>level := L\<rparr>\<rparr>"
        and "level (hw ?s1) q = v \<longrightarrow> L q = v"
      by blast
    then have "s' = s\<lparr>hw := (hw s)\<lparr>level := L\<rparr>\<rparr> \<and> (level (hw s) q = v \<longrightarrow> L q = v)"
      by (simp split: if_splits)
    then show ?thesis by blast
  next
    case False
    then have head: "on_hw (GPIO_output p v) s = (Some RuntimeError, s)"
      by (simp add: on_hw_output)
    from Cons.prems head have "s' = s\<lparr>hw := (hw s)\<lparr>level := level (hw s)\<rparr>\<rparr>" by auto
    then show ?thesis by blast
  qed
qed

lemma write_all_again:
  "steps (map (\<lambda>p. on_hw (GPIO_output p v)) ps) s = (e, s') \<Longrightarrow>
     steps (map (\<lambda>p. on_hw (GPIO_output p v)) ps) s' = (e, s')"
proof (induction ps arbitrary: s)
  case Nil
  then show ?case by simp
next
  case (Cons p ps)
  show ?case
  proof (cases "mode_set (hw s) \<and> p \<in> outputs (hw s)")
    case True
    let ?s1 = "s\<lparr>hw := (hw s)\<lparr>level := (level (hw s))(p := v)\<rparr>\<rparr>"
    have head: "on_hw (GPIO_output p v) s = (None, ?s1)"
      using True by (simp add: on_hw_output)
    from Cons.prems head
    have run: "steps (map (\<lambda>p. on_hw (GPIO_output p v)) ps) ?s1 = (e, s')"
      by simp
    from write_all_frame [OF run, of p] obtain L
      where s': "s' = ?s1\<lparr>hw := (hw ?s1)\<lparr>level := L\<rparr>\<rparr>" and lv: "L p = v"
      by auto
    have head': "on_hw (GPIO_output p v) s' = (None, s')"
      using True lv by (simp add: on_hw_output s' fun_upd_idem)
    from Cons.IH [OF run] head' show ?thesis
      by simp
  next
    case False
    then have head: "on_hw (GPIO_output p v) s = (Some RuntimeError, s)"
      by (simp add: on_hw_output)
    from Cons.prems head show ?thesis by auto
  qed
qed

lemma write_all_console:
  "steps (map (\<lambda>p. on_hw (GPIO_output p v)) ps) s = (e, s') \<Longrightarrow>
     steps (map (\<lambda>p. on_hw (GPIO_output p v)) ps) (s\<lparr>console := c\<rparr>) = (e, s'\<lparr>console := c\<rparr>)"
proof (induction ps arbitrary: s)
  case Nil
  then show ?case by auto
next
  case (Cons p ps)
  show ?case
  proof (cases "mode_set (hw s) \<and> p \<in> outputs (hw s)")
    case True
    let ?s1 = "s\<lparr>hw := (hw s)\<lparr>level := (level (hw s))(p := v)\<rparr>\<rparr>"
    have head: "on_hw (GPIO_output p v) s = (None, ?s1)"
      using True by (simp add: on_hw_output)
    have head': "on_hw (GPIO_output p v) (s\<lparr>console := c\<rparr>) = (None, ?s1\<lparr>console := c\<rparr>)"
      using True by (simp add: on_hw_output)
    from Cons.prems head
    have run: "steps (map (\<lambda>p. on_hw (GPIO_output p v)) ps) ?s1 = (e, s')"
      by simp
    from Cons.IH [OF run] head' show ?thesis by simp
  next
    case False
    then have head: "on_hw (GPIO_output p v) s = (Some RuntimeError, s)"
      and head': "on_hw (GPIO_output p v) (s\<lparr>console := c\<rparr>) = (Some RuntimeError, s\<lparr>console := c\<rparr>)"
      by (simp_all add: on_hw_output)
    from Cons.prems head head' show ?thesis by auto
  qed
qed

lemma emergency_stop_motors_shape:
  "emergency_stop_motors s =
     try_except
       (steps (map (\<lambda>p. on_hw (GPIO_output p LOW))
                 [MOTOR_PINS IN1, MOTOR_PINS IN2, MOTOR_PINS IN3, MOTOR_PINS IN4, WATCHDOG_PIN]))
       (\<lambda>e. emit (Printed ''Emergency stop error''))
       (s\<lparr>pwm_a := (pwm_a s)\<lparr>dutycycle := 0\<rparr>, pwm_b := (pwm_b s)\<lparr>dutycycle := 0\<rparr>\<rparr>)"
  by (simp add: emergency_stop_motors_def try_except_def on_pwm_a_def on_pwm_b_def
      ChangeDutyCycle_zero WATCHDOG_PIN_def del: MOTOR_PINS.simps)

lemma emergency_stop_motors_configured:
  assumes "pins_configured (hw s)"
  shows "emergency_stop_motors s =
    (None, s\<lparr>pwm_a := (pwm_a s)\<lparr>dutycycle := 0\<rparr>,
            pwm_b := (pwm_b s)\<lparr>dutycycle := 0\<rparr>,
            hw := (hw s)\<lparr>level := (level (hw s))(MOTOR_PINS IN1 := LOW,
                     MOTOR_PINS IN2 := LOW, MOTOR_PINS IN3 := LOW, MOTOR_PINS IN4 := LOW,
                     WATCHDOG_PIN := LOW)\<rparr>\<rparr>)"
  using assms
  by (simp add: emergency_stop_motors_def pins_configured_def driver_defs lift_defs
      WATCHDOG_PIN_def)

lemma emergency_stop_motors_returns: "fst (emergency_stop_motors s) = None"
  by (simp add: emergency_stop_motors_def driver_defs lift_defs WATCHDOG_PIN_def)

lemma emergency_stop_motors_duty:
  "dutycycle (pwm_a (snd (emergency_stop_motors s))) = 0 \<and>
   dutycycle (pwm_b (snd (emergency_stop_motors s))) = 0"
  by (simp add: emergency_stop_motors_def driver_defs lift_defs WATCHDOG_PIN_def)

lemma emergency_stop_motors_keeps:
  "is_moving (snd (emergency_stop_motors s)) = is_moving s \<and>
   last_command_time (snd (emergency_stop_motors s)) = last_command_time s \<and>
   current_speed (snd (emergency_stop_motors s)) = current_speed s \<and>
   watchdog_active (snd (emergency_stop_motors s)) = watchdog_active s"
  by (simp add: emergency_stop_motors_def driver_defs lift_defs WATCHDOG_PIN_def)

lemma emergency_stop_motors_twice:
  "hw (snd (emergency_stop_motors (snd (emergency_stop_motors s)))) = hw (snd (emergency_stop_motors s))
  \<and> pwm_a (snd (emergency_stop_motors (snd (emergency_stop_motors s)))) = pwm_a (snd (emergency_stop_motors s))
  \<and> pwm_b (snd (emergency_stop_motors (snd (emergency_stop_motors s)))) = pwm_b (snd (emergency_stop_motors s))"
proof -
  let ?ps = "[MOTOR_PINS IN1, MOTOR_PINS IN2, MOTOR_PINS IN3, MOTOR_PINS IN4, WATCHDOG_PIN]"
  let ?w = "steps (map (\<lambda>p. on_hw (GPIO_output p LOW)) ?ps)"
  let ?s0 = "s\<lparr>pwm_a := (pwm_a s)\<lparr>dutycycle := 0\<rparr>, pwm_b := (pwm_b s)\<lparr>dutycycle := 0\<rparr>\<rparr>"
  obtain e s1 where run: "?w ?s0 = (e, s1)" by (cases "?w ?s0")
  from write_all_frame [OF run] obtain L where s1: "s1 = ?s0\<lparr>hw := (hw ?s0)\<lparr>level := L\<rparr>\<rparr>"
    by blast
  have again: "?w s1 = (e, s1)" by (rule write_all_again [OF run])
  show ?thesis
  proof (cases e)
    case None
    with run have first: "emergency_stop_motors s = (None, s1)"
      by (simp only: emergency_stop_motors_shape try_except_def prod.case option.case)
    have "s1\<lparr>pwm_a := (pwm_a s1)\<lparr>dutycycle := 0\<rparr>, pwm_b := (pwm_b s1)\<lparr>dutycycle := 0\<rparr>\<rparr> = s1"
      by (simp add: s1)
    with again None have "emergency_stop_motors s1 = (None, s1)"
      by (simp only: emergency_stop_motors_shape try_except_def prod.case option.case)
    with first show ?thesis by simp
  next
    case (Some x)
    let ?s2 = "s1\<lparr>console := console s1 @ [Printed ''Emergency stop error'']\<rparr>"
    from Some run have first: "emergency_stop_motors s = (None, ?s2)"
      by (simp only: emergency_stop_motors_shape try_except_def prod.case option.case emit_def)
    have z: "?s2\<lparr>pwm_a := (pwm_a ?s2)\<lparr>dutycycle := 0\<rparr>, pwm_b := (pwm_b ?s2)\<lparr>dutycycle := 0\<rparr>\<rparr> = ?s2"
      by (simp add: s1)
    from write_all_console [OF again] Some have "?w ?s2 = (Some x, ?s2)"
      by simp
    with z have "emergency_stop_motors ?s2 =
        (None, ?s2\<lparr>console := console ?s2 @ [Printed ''Emergency stop error'']\<rparr>)"
      by (simp only: emergency_stop_motors_shape try_except_def prod.case option.case emit_def)
    with first show ?thesis by simp
  qed
qed


lemma idle_robot_constructed: "SafeMotorController_init 0 fresh_gpio = Inr idle_robot"
  by (simp add: SafeMotorController_init_def fresh_gpio_def idle_robot_def MOTOR_PINS_keys_def
      WATCHDOG_PIN_def GPIO_setmode_def GPIO_setwarnings_def GPIO_setup_def GPIO_output_def
      GPIO_PWM_def pwm_start_zero)
    (auto simp: fun_eq_iff)

lemma idle_robot_configured: "pins_configured (hw idle_robot)"
  by (simp add: pins_configured_def idle_robot_def WATCHDOG_PIN_def)

section \<open>What each command does on a configured driver\<close>

lemma effective_speed_frame:
  "effective_speed speed (s\<lparr>last_command_time := now\<rparr>) = effective_speed speed s"
  by (simp add: effective_speed_def split: option.splits)

lemma move_forward_configured:
  assumes "pins_configured (hw s)"
  shows "move_forward speed now s =
    (if c_float (effective_speed speed s) < 0 \<or> 100 < c_float (effective_speed speed s)
     then (Some ValueError,
           s\<lparr>last_command_time := now,
             hw := (hw s)\<lparr>level := (level (hw s))(WATCHDOG_PIN := HIGH, MOTOR_PINS IN1 := HIGH,
                      MOTOR_PINS IN2 := LOW, MOTOR_PINS IN3 := HIGH, MOTOR_PINS IN4 := LOW)\<rparr>\<rparr>)
     else (None,
           s\<lparr>last_command_time := now,
             hw := (hw s)\<lparr>level := (level (hw s))(WATCHDOG_PIN := HIGH, MOTOR_PINS IN1 := HIGH,
                      MOTOR_PINS IN2 := LOW, MOTOR_PINS IN3 := HIGH, MOTOR_PINS IN4 := LOW)\<rparr>,
             pwm_a := (pwm_a s)\<lparr>dutycycle := c_float (effective_speed speed s)\<rparr>,
             pwm_b := (pwm_b s)\<lparr>dutycycle := c_float (effective_speed speed s)\<rparr>,
             is_moving := True\<rparr>))"
  using assms
  by (simp add: move_forward_def pins_configured_def effective_speed_frame driver_defs lift_defs
      WATCHDOG_PIN_def Let_def)

lemma move_backward_configured:
  assumes "pins_configured (hw s)"
  shows "move_backward speed now s =
    (if c_float (effective_speed speed s) < 0 \<or> 100 < c_float (effective_speed speed s)
     then (Some ValueError,
           s\<lparr>last_command_time := now,
             hw := (hw s)\<lparr>level := (level (hw s))(WATCHDOG_PIN := HIGH, MOTOR_PINS IN1 := LOW,
                      MOTOR_PINS IN2 := HIGH, MOTOR_PINS IN3 := LOW, MOTOR_PINS IN4 := HIGH)\<rparr>\<rparr>)
     else (None,
           s\<lparr>last_command_time := now,
             hw := (hw s)\<lparr>level := (level (hw s))(WATCHDOG_PIN := HIGH, MOTOR_PINS IN1 := LOW,
                      MOTOR_PINS IN2 := HIGH, MOTOR_PINS IN3 := LOW, MOTOR_PINS IN4 := HIGH)\<rparr>,
             pwm_a := (pwm_a s)\<lparr>dutycycle := c_float (effective_speed speed s)\<rparr>,
             pwm_b := (pwm_b s)\<lparr>dutycycle := c_float (effective_speed speed s)\<rparr>,
             is_moving := True\<rparr>))"
  using assms
  by (simp add: move_backward_def pins_configured_def effective_speed_frame driver_defs lift_defs
      WATCHDOG_PIN_def Let_def)

lemma turn_left_configured:
  assumes "pins_configured (hw s)"
  shows "turn_left speed now s =
    (if c_float (effective_speed speed s) < 0 \<or> 100 < c_float (effective_speed speed s)
     then (Some ValueError,
           s\<lparr>last_command_time := now,
             hw := (hw s)\<lparr>level := (level (hw s))(WATCHDOG_PIN := HIGH, MOTOR_PINS IN1 := LOW,
                      MOTOR_PINS IN2 := HIGH, MOTOR_PINS IN3 := HIGH, MOTOR_PINS IN4 := LOW)\<rparr>\<rparr>)
     else (None,
           s\<lparr>last_command_time := now,
             hw := (hw s)\<lparr>level := (level (hw s))(WATCHDOG_PIN := HIGH, MOTOR_PINS IN1 := LOW,
                      MOTOR_PINS IN2 := HIGH, MOTOR_PINS IN3 := HIGH, MOTOR_PINS IN4 := LOW)\<rparr>,
             pwm_a := (pwm_a s)\<lparr>dutycycle := c_float (effective_speed speed s)\<rparr>,
             pwm_b := (pwm_b s)\<lparr>dutycycle := c_float (effective_speed speed s)\<rparr>,
             is_moving := True\<rparr>))"
  using assms
  by (simp add: turn_left_def pins_configured_def effective_speed_frame driver_defs lift_defs
      WATCHDOG_PIN_def Let_def)

lemma turn_right_configured:
  assumes "pins_configured (hw s)"
  shows "turn_right speed now s =
    (if c_float (effective_speed speed s) < 0 \<or> 100 < c_float (effective_speed speed s)
     then (Some ValueError,
           s\<lparr>last_command_time := now,
             hw := (hw s)\<lparr>level := (level (hw s))(WATCHDOG_PIN := HIGH, MOTOR_PINS IN1 := HIGH,
                      MOTOR_PINS IN2 := LOW, MOTOR_PINS IN3 := LOW, MOTOR_PINS IN4 := HIGH)\<rparr>\<rparr>)
     else (None,
           s\<lparr>last_command_time := now,
             hw := (hw s)\<lparr>level := (level (hw s))(WATCHDOG_PIN := HIGH, MOTOR_PINS IN1 := HIGH,
                      MOTOR_PINS IN2 := LOW, MOTOR_PINS IN3 := LOW, MOTOR_PINS IN4 := HIGH)\<rparr>,
             pwm_a := (pwm_a s)\<lparr>dutycycle := c_float (effective_speed speed s)\<rparr>,
             pwm_b := (pwm_b s)\<lparr>dutycycle := c_float (effective_speed speed s)\<rparr>,
             is_moving := True\<rparr>))"
  using assms
  by (simp add: turn_right_def pins_configured_def effective_speed_frame driver_defs lift_defs
      WATCHDOG_PIN_def Let_def)

lemma stop_configured:
  assumes "pins_configured (hw s)"
  shows "stop now s =
    (None, s\<lparr>last_command_time := now,
            pwm_a := (pwm_a s)\<lparr>dutycycle := 0\<rparr>,
            pwm_b := (pwm_b s)\<lparr>dutycycle := 0\<rparr>,
            hw := (hw s)\<lparr>level := (level (hw s))(MOTOR_PINS IN1 := LOW,
                     MOTOR_PINS IN2 := LOW, MOTOR_PINS IN3 := LOW, MOTOR_PINS IN4 := LOW)\<rparr>,
            is_moving := False\<rparr>)"
  using assms
  by (simp add: stop_def pins_configured_def driver_defs lift_defs)

lemma lower_tokens:
  "lower ''forward'' = ''forward''" "lower ''backward'' = ''backward''"
  "lower ''left'' = ''left''" "lower ''right'' = ''right''" "lower ''stop'' = ''stop''"
  "lower ''emergency_stop'' = ''emergency_stop''" "lower ''speed'' = ''speed''"
  "lower ''banana'' = ''banana''" "lower ''FORWARD'' = ''forward''"
  by (simp_all add: lower_def lower_char_def)

lemma cruising_robot_eq:
  "cruising_robot =
     idle_robot\<lparr>hw := (hw idle_robot)\<lparr>level := (level (hw idle_robot))(7 := HIGH, 23 := HIGH,
                      24 := LOW, 25 := HIGH, 8 := LOW)\<rparr>,
       pwm_a := (pwm_a idle_robot)\<lparr>dutycycle := 70\<rparr>,
       pwm_b := (pwm_b idle_robot)\<lparr>dutycycle := 70\<rparr>,
       is_moving := True,
       console := console idle_robot @ [Info ''Moving forward'']\<rparr>"
  by (simp add: cruising_robot_def execute_command_def lower_tokens
      move_forward_configured [OF idle_robot_configured] effective_speed_def emit_def
      WATCHDOG_PIN_def)
    (simp add: idle_robot_def c_float_examples)

subsection \<open>The watchdog pass, the heartbeat pass and cleanup\<close>

lemma watchdog_tick_fires:
  assumes "is_moving s" "now - last_command_time s > WATCHDOG_TIMEOUT"
  shows "watchdog_tick now s =
     (None, (snd (emergency_stop_motors
                    (s\<lparr>console := console s @ [Printed ''Watchdog timeout - stopping motors'']\<rparr>)))
              \<lparr>is_moving := False\<rparr>)"
proof -
  let ?s1 = "s\<lparr>console := console s @ [Printed ''Watchdog timeout - stopping motors'']\<rparr>"
  obtain s2 where esm: "emergency_stop_motors ?s1 = (None, s2)"
    using emergency_stop_motors_returns [of ?s1] by (cases "emergency_stop_motors ?s1") simp
  show ?thesis
    using assms esm by (simp add: watchdog_tick_def try_except_def emit_def set_is_moving_def)
qed

lemma watchdog_tick_quiet:
  assumes "\<not> (is_moving s \<and> now - last_command_time s > WATCHDOG_TIMEOUT)"
  shows "watchdog_tick now s = (None, s)"
  using assms by (auto simp: watchdog_tick_def try_except_def)

lemma heartbeat_tick_keeps: "is_moving (snd (heartbeat_tick hb s)) = is_moving s"
  by (simp add: heartbeat_tick_def on_hw_output)

lemma cleanup_result:
  "cleanup s =
     (let s2 = snd (emergency_stop_motors
                      (s\<lparr>console := console s @ [Printed ''Cleaning up motor controller...''],
                         watchdog_active := False\<rparr>))
      in (None, s2\<lparr>pwm_a := (pwm_a s2)\<lparr>running := False\<rparr>,
                  pwm_b := (pwm_b s2)\<lparr>running := False\<rparr>,
                  hw := (hw s2)\<lparr>mode_set := False, outputs := {}\<rparr>,
                  console := console s2 @ [Printed ''Motor controller cleanup complete'']\<rparr>))"
proof -
  let ?s1 = "s\<lparr>console := console s @ [Printed ''Cleaning up motor controller...''],
               watchdog_active := False\<rparr>"
  obtain s2 where esm: "emergency_stop_motors ?s1 = (None, s2)"
    using emergency_stop_motors_returns [of ?s1] by (cases "emergency_stop_motors ?s1") simp
  then show ?thesis
    by (simp add: cleanup_def emit_def pure_step_def on_pwm_a_def on_pwm_b_def on_hw_def
        pwm_stop_def GPIO_cleanup_def)
qed

lemma cleanup_keeps: "fst (cleanup s) = None \<and> is_moving (snd (cleanup s)) = is_moving s"
  by (simp add: cleanup_result Let_def emergency_stop_motors_keeps)

lemma cruising_robot_configured: "pins_configured (hw cruising_robot)"
  by (simp add: cruising_robot_eq pins_configured_def idle_robot_def WATCHDOG_PIN_def)

lemma cruising_robot_fields:
  "is_moving cruising_robot" "last_command_time cruising_robot = 0"
  "direction_pins (hw cruising_robot) = (HIGH, LOW, HIGH, LOW)"
  "enable_duty cruising_robot = (70, 70)"
  by (simp_all add: cruising_robot_eq idle_robot_def direction_pins_def enable_duty_def)

subsection \<open>Stop\<close>

lemma steps_append:
  "steps (fs @ gs) s =
     (case steps fs s of (None, s') \<Rightarrow> steps gs s' | (Some e, s') \<Rightarrow> (Some e, s'))"
  by (induction fs arbitrary: s) (auto split: prod.splits option.splits)

lemma stop_shape:
  "stop now s =
     (case steps (map (\<lambda>p. on_hw (GPIO_output p LOW))
                   [MOTOR_PINS IN1, MOTOR_PINS IN2, MOTOR_PINS IN3, MOTOR_PINS IN4])
             (s\<lparr>last_command_time := now, pwm_a := (pwm_a s)\<lparr>dutycycle := 0\<rparr>,
                pwm_b := (pwm_b s)\<lparr>dutycycle := 0\<rparr>\<rparr>) of
        (None, s') \<Rightarrow> (None, s'\<lparr>is_moving := False\<rparr>)
      | (Some e, s') \<Rightarrow> (Some e, s'))"
proof -
  have "stop now s =
     steps ([on_pwm_a (ChangeDutyCycle 0), on_pwm_b (ChangeDutyCycle 0)]
            @ (map (\<lambda>p. on_hw (GPIO_output p LOW))
                 [MOTOR_PINS IN1, MOTOR_PINS IN2, MOTOR_PINS IN3, MOTOR_PINS IN4]
               @ [set_is_moving False])) (update_command_time now s)"
    by (simp add: stop_def del: MOTOR_PINS.simps steps.simps)
  also have "\<dots> = steps (map (\<lambda>p. on_hw (GPIO_output p LOW))
                 [MOTOR_PINS IN1, MOTOR_PINS IN2, MOTOR_PINS IN3, MOTOR_PINS IN4]
               @ [set_is_moving False])
          (s\<lparr>last_command_time := now, pwm_a := (pwm_a s)\<lparr>dutycycle := 0\<rparr>,
             pwm_b := (pwm_b s)\<lparr>dutycycle := 0\<rparr>\<rparr>)"
    by (simp only: steps_append [of "[on_pwm_a (ChangeDutyCycle 0), on_pwm_b (ChangeDutyCycle 0)]"])
       (simp add: on_pwm_a_def on_pwm_b_def ChangeDutyCycle_zero update_command_time_def
          del: MOTOR_PINS.simps)
  also have "\<dots> = (case steps (map (\<lambda>p. on_hw (GPIO_output p LOW))
                   [MOTOR_PINS IN1, MOTOR_PINS IN2, MOTOR_PINS IN3, MOTOR_PINS IN4])
             (s\<lparr>last_command_time := now, pwm_a := (pwm_a s)\<lparr>dutycycle := 0\<rparr>,
                pwm_b := (pwm_b s)\<lparr>dutycycle := 0\<rparr>\<rparr>) of
        (None, s') \<Rightarrow> (None, s'\<lparr>is_moving := False\<rparr>)
      | (Some e, s') \<Rightarrow> (Some e, s'))"
    by (simp only: steps_append)
       (simp add: set_is_moving_def split: prod.splits option.splits del: MOTOR_PINS.simps)
  finally show ?thesis .
qed

lemma stop_always:
  "last_command_time (snd (stop now s)) = now
   \<and> dutycycle (pwm_a (snd (stop now s))) = 0 \<and> dutycycle (pwm_b (snd (stop now s))) = 0"
proof -
  let ?s0 = "s\<lparr>last_command_time := now, pwm_a := (pwm_a s)\<lparr>dutycycle := 0\<rparr>,
               pwm_b := (pwm_b s)\<lparr>dutycycle := 0\<rparr>\<rparr>"
  let ?w = "steps (map (\<lambda>p. on_hw (GPIO_output p LOW))
              [MOTOR_PINS IN1, MOTOR_PINS IN2, MOTOR_PINS IN3, MOTOR_PINS IN4])"
  obtain e s1 where run: "?w ?s0 = (e, s1)" by (cases "?w ?s0")
  from write_all_frame [OF run] obtain L
    where s1: "s1 = ?s0\<lparr>hw := (hw ?s0)\<lparr>level := L\<rparr>\<rparr>" by blast
  have "stop now s = (case (e, s1) of (None, s') \<Rightarrow> (None, s'\<lparr>is_moving := False\<rparr>)
      | (Some e, s') \<Rightarrow> (Some e, s'))"
    by (simp only: stop_shape run)
  then show ?thesis
    by (cases e) (simp_all add: s1)
qed

subsection \<open>What a block of steps leaves alone\<close>

lemma steps_keep:
  assumes "\<And>f x. f \<in> set fs \<Longrightarrow> obs (snd (f x)) = obs x"
  shows "obs (snd (steps fs s)) = obs s"
  using assms
proof (induction fs arbitrary: s)
  case Nil
  then show ?case by simp
next
  case (Cons f fs)
  have hd: "obs (snd (f s)) = obs s" using Cons.prems by simp
  have tl: "obs (snd (steps fs x)) = obs x" for x
    using Cons.IH Cons.prems by simp
  obtain e s1 where fs: "f s = (e, s1)" by (cases "f s")
  with hd have s1: "obs s1 = obs s" by simp
  show ?case
    using fs s1 tl [of s1] by (cases e) simp_all
qed

lemma step_keeps_time:
  "last_command_time (snd (on_hw f s)) = last_command_time s"
  "last_command_time (snd (on_pwm_a h s)) = last_command_time s"
  "last_command_time (snd (on_pwm_b h s)) = last_command_time s"
  "last_command_time (snd (set_is_moving b s)) = last_command_time s"
  "last_command_time (snd (emit ev s)) = last_command_time s"
  "last_command_time (snd (steps [] s)) = last_command_time s"
  by (simp_all add: on_hw_def on_pwm_a_def on_pwm_b_def set_is_moving_def emit_def
      split: prod.splits)

lemma movement_sets_time:
  "last_command_time (snd (move_forward speed now s)) = now"
  "last_command_time (snd (move_backward speed now s)) = now"
  "last_command_time (snd (turn_left speed now s)) = now"
  "last_command_time (snd (turn_right speed now s)) = now"
proof -
  have k: "last_command_time (snd (steps fs (update_command_time now s))) = now"
    if "\<And>f x. f \<in> set fs \<Longrightarrow> last_command_time (snd (f x)) = last_command_time x" for fs
    using steps_keep [of fs last_command_time "update_command_time now s"] that
    by (simp add: update_command_time_def)
  show "last_command_time (snd (move_forward speed now s)) = now"
    unfolding move_forward_def Let_def by (rule k) (auto simp: step_keeps_time)
  show "last_command_time (snd (move_backward speed now s)) = now"
    unfolding move_backward_def Let_def by (rule k) (auto simp: step_keeps_time)
  show "last_command_time (snd (turn_left speed now s)) = now"
    unfolding turn_left_def Let_def by (rule k) (auto simp: step_keeps_time)
  show "last_command_time (snd (turn_right speed now s)) = now"
    unfolding turn_right_def Let_def by (rule k) (auto simp: step_keeps_time)
qed

lemma then_emit_keeps_time:
  "last_command_time (snd (steps [f, emit ev] s)) = last_command_time (snd (f s))"
  by (cases "f s") (auto simp: emit_def split: option.splits)

subsection \<open>Dispatch\<close>

lemma unknown_command:
  assumes "lower tok \<notin> {''forward'', ''backward'', ''left'', ''right'', ''stop'', ''emergency_stop''}"
  shows "execute_command tok now s =
           (None, s\<lparr>console := console s @ [Warn (''Unknown command: '' @ lower tok)]\<rparr>)"
  using assms by (simp add: execute_command_def emit_def Let_def)

lemma py_int_examples:
  "py_int ''150'' = Inr 150" "py_int ''abc'' = Inl ValueError" "py_int [] = Inl ValueError"
  by (simp_all add: py_int_def strip_def is_space_def digit_val_def upt_rec)

subsection \<open>The module-level emergency stop\<close>

lemma emergency_stop_result:
  "emergency_stop g =
     (Printed ''Emergency stop executed'',
      g\<lparr>mode_set := True, warnings := False,
        outputs := insert 7 (insert 12 (insert 18 (insert 8 (insert 25 (insert 24
                     (insert 23 (outputs g))))))),
        level := (level g)(23 := LOW, 24 := LOW, 25 := LOW, 8 := LOW, 18 := LOW, 12 := LOW,
                   7 := LOW)\<rparr>)"
  by (simp add: emergency_stop_def MOTOR_PINS_keys_def WATCHDOG_PIN_def GPIO_setmode_def
      GPIO_setwarnings_def GPIO_setup_def GPIO_output_def)

lemma emergency_stop_again: "emergency_stop (snd (emergency_stop g)) = emergency_stop g"
  by (simp add: emergency_stop_result) (auto intro!: gpio.equality simp: fun_eq_iff)

subsection \<open>Speeds the driver accepts and speeds it refuses\<close>

lemma effective_speed_Some: "effective_speed (Some p) s = p"
  by (simp add: effective_speed_def)

lemma movement_direction:
  assumes cfg: "pins_configured (hw s)"
  shows "direction_pins (hw (snd (move_forward speed now s))) = (HIGH, LOW, HIGH, LOW)"
    and "direction_pins (hw (snd (move_backward speed now s))) = (LOW, HIGH, LOW, HIGH)"
    and "direction_pins (hw (snd (turn_left speed now s))) = (LOW, HIGH, HIGH, LOW)"
    and "direction_pins (hw (snd (turn_right speed now s))) = (HIGH, LOW, LOW, HIGH)"
  by (simp_all add: move_forward_configured [OF cfg] move_backward_configured [OF cfg]
      turn_left_configured [OF cfg] turn_right_configured [OF cfg] direction_pins_def
      WATCHDOG_PIN_def)

lemma movement_accepted:
  assumes cfg: "pins_configured (hw s)"
    and ok: "\<not> (c_float (effective_speed speed s) < 0 \<or> 100 < c_float (effective_speed speed s))"
  shows "fst (move_forward speed now s) = None
       \<and> enable_duty (snd (move_forward speed now s)) =
           (c_float (effective_speed speed s), c_float (effective_speed speed s))
       \<and> is_moving (snd (move_forward speed now s))"
    and "fst (move_backward speed now s) = None
       \<and> enable_duty (snd (move_backward speed now s)) =
           (c_float (effective_speed speed s), c_float (effective_speed speed s))
       \<and> is_moving (snd (move_backward speed now s))"
    and "fst (turn_left speed now s) = None
       \<and> enable_duty (snd (turn_left speed now s)) =
           (c_float (effective_speed speed s), c_float (effective_speed speed s))
       \<and> is_moving (snd (turn_left speed now s))"
    and "fst (turn_right speed now s) = None
       \<and> enable_duty (snd (turn_right speed now s)) =
           (c_float (effective_speed speed s), c_float (effective_speed speed s))
       \<and> is_moving (snd (turn_right speed now s))"
  using ok
  by (simp_all add: move_forward_configured [OF cfg] move_backward_configured [OF cfg]
      turn_left_configured [OF cfg] turn_right_configured [OF cfg] enable_duty_def)

lemma movement_refused:
  assumes cfg: "pins_configured (hw s)"
    and out: "c_float (effective_speed speed s) < 0 \<or> 100 < c_float (effective_speed speed s)"
  shows "fst (move_forward speed now s) = Some ValueError
       \<and> enable_duty (snd (move_forward speed now s)) = enable_duty s
       \<and> is_moving (snd (move_forward speed now s)) = is_moving s"
    and "fst (move_backward speed now s) = Some ValueError
       \<and> enable_duty (snd (move_backward speed now s)) = enable_duty s
       \<and> is_moving (snd (move_backward speed now s)) = is_moving s"
    and "fst (turn_left speed now s) = Some ValueError
       \<and> enable_duty (snd (turn_left speed now s)) = enable_duty s
       \<and> is_moving (snd (turn_left speed now s)) = is_moving s"
    and "fst (turn_right speed now s) = Some ValueError
       \<and> enable_duty (snd (turn_right speed now s)) = enable_duty s
       \<and> is_moving (snd (turn_right speed now s)) = is_moving s"
  using out
  by (simp_all add: move_forward_configured [OF cfg] move_backward_configured [OF cfg]
      turn_left_configured [OF cfg] turn_right_configured [OF cfg] enable_duty_def)

lemma percentage_accepted:
  assumes "0 \<le> p" and "p \<le> 100"
  shows "\<not> (c_float p < 0 \<or> 100 < c_float p)"
  using c_float_range [OF assms] by simp

lemma cmd_vel_linear:
  assumes "\<bar>angular_z\<bar> < \<bar>linear_x\<bar>"
  shows "0 < linear_x \<Longrightarrow> cmd_vel_callback linear_x angular_z now s =
           move_forward (Some (linear_x * 100)) now (update_command_time now s)"
    and "linear_x < 0 \<Longrightarrow> cmd_vel_callback linear_x angular_z now s =
           move_backward (Some (- linear_x * 100)) now (update_command_time now s)"
  using assms by (simp_all add: cmd_vel_callback_def Let_def abs_mult)


section \<open>The live controller is an invariant\<close>

lemma live_cong: "setup_of s' = setup_of s \<Longrightarrow> live s' = live s"
  by (simp add: live_def setup_of_def pins_configured_def)

lemma step_keeps_setup:
  "setup_of (snd (on_hw (GPIO_output q v) s)) = setup_of s"
  "setup_of (snd (on_pwm_a h s)) = setup_of s"
  "setup_of (snd (on_pwm_b h s)) = setup_of s"
  "setup_of (snd (set_is_moving b s)) = setup_of s"
  "setup_of (snd (emit ev s)) = setup_of s"
  "setup_of (snd (steps [] s)) = setup_of s"
  "setup_of (update_command_time now s) = setup_of s"
  by (simp_all add: setup_of_def on_hw_output on_pwm_a_def on_pwm_b_def set_is_moving_def
      emit_def update_command_time_def split: prod.splits)

lemma movement_keeps_setup:
  "setup_of (snd (move_forward speed now s)) = setup_of s"
  "setup_of (snd (move_backward speed now s)) = setup_of s"
  "setup_of (snd (turn_left speed now s)) = setup_of s"
  "setup_of (snd (turn_right speed now s)) = setup_of s"
proof -
  have k: "setup_of (snd (steps fs (update_command_time now s))) = setup_of s"
    if "\<And>f x. f \<in> set fs \<Longrightarrow> setup_of (snd (f x)) = setup_of x" for fs
    using steps_keep [of fs setup_of "update_command_time now s"] that
    by (simp add: step_keeps_setup)
  show "setup_of (snd (move_forward speed now s)) = setup_of s"
    unfolding move_forward_def Let_def by (rule k) (auto simp: step_keeps_setup)
  show "setup_of (snd (move_backward speed now s)) = setup_of s"
    unfolding move_backward_def Let_def by (rule k) (auto simp: step_keeps_setup)
  show "setup_of (snd (turn_left speed now s)) = setup_of s"
    unfolding turn_left_def Let_def by (rule k) (auto simp: step_keeps_setup)
  show "setup_of (snd (turn_right speed now s)) = setup_of s"
    unfolding turn_right_def Let_def by (rule k) (auto simp: step_keeps_setup)
qed

lemma stop_keeps_setup: "setup_of (snd (stop now s)) = setup_of s"
proof -
  let ?fs = "[on_pwm_a (ChangeDutyCycle 0), on_pwm_b (ChangeDutyCycle 0)]
        @ map (\<lambda>n. on_hw (GPIO_output (MOTOR_PINS n) LOW)) [IN1, IN2, IN3, IN4]
        @ [set_is_moving False]"
  have "setup_of (snd (steps ?fs (update_command_time now s))) = setup_of (update_command_time now s)"
    by (rule steps_keep) (auto simp: step_keeps_setup)
  then show ?thesis
    by (simp add: stop_def step_keeps_setup del: steps.simps)
qed

lemma emergency_stop_motors_keeps_setup: "setup_of (snd (emergency_stop_motors s)) = setup_of s"
proof -
  let ?fs = "[on_pwm_a (ChangeDutyCycle 0), on_pwm_b (ChangeDutyCycle 0)]
           @ map (\<lambda>n. on_hw (GPIO_output (MOTOR_PINS n) LOW)) [IN1, IN2, IN3, IN4]
           @ (if WATCHDOG_PIN \<noteq> 0 then [on_hw (GPIO_output WATCHDOG_PIN LOW)] else [])"
  have body: "setup_of (snd (steps ?fs s)) = setup_of s"
    by (rule steps_keep) (auto simp: step_keeps_setup)
  obtain e s1 where run: "steps ?fs s = (e, s1)" by (cases "steps ?fs s")
  with body have "setup_of s1 = setup_of s" by simp
  with run show ?thesis
    unfolding emergency_stop_motors_def try_except_def
    by (cases e) (simp_all add: step_keeps_setup del: steps.simps)
qed

lemma then_emit_keeps_setup:
  "setup_of (snd (steps [f, emit ev] s)) = setup_of (snd (f s))"
  by (cases "f s") (auto simp: emit_def setup_of_def split: option.splits)

lemma execute_command_keeps_setup: "setup_of (snd (execute_command tok now s)) = setup_of s"
  by (simp add: execute_command_def Let_def then_emit_keeps_setup movement_keeps_setup
      stop_keeps_setup emergency_stop_motors_keeps_setup step_keeps_setup del: steps.simps)

lemma watchdog_tick_keeps_setup: "setup_of (snd (watchdog_tick now s)) = setup_of s"
proof (cases "is_moving s \<and> now - last_command_time s > WATCHDOG_TIMEOUT")
  case True
  let ?s1 = "s\<lparr>console := console s @ [Printed ''Watchdog timeout - stopping motors'']\<rparr>"
  let ?s2 = "snd (emergency_stop_motors ?s1)"
  from True have "watchdog_tick now s = (None, ?s2\<lparr>is_moving := False\<rparr>)"
    by (simp add: watchdog_tick_fires)
  then have "setup_of (snd (watchdog_tick now s)) = setup_of ?s2"
    by (simp add: setup_of_def)
  also have "\<dots> = setup_of ?s1"
    by (rule emergency_stop_motors_keeps_setup)
  also have "\<dots> = setup_of s"
    by (simp add: setup_of_def)
  finally show ?thesis .
next
  case False
  then show ?thesis by (simp add: watchdog_tick_quiet)
qed

lemma heartbeat_tick_keeps_setup: "setup_of (snd (heartbeat_tick hb s)) = setup_of s"
  by (simp add: heartbeat_tick_def on_hw_output setup_of_def)

lemma cmd_vel_callback_keeps_setup:
  "setup_of (snd (cmd_vel_callback linear_x angular_z now s)) = setup_of s"
  by (simp add: cmd_vel_callback_def Let_def movement_keeps_setup stop_keeps_setup
      step_keeps_setup)

lemma set_speed_live: "live s \<Longrightarrow> live (set_speed p now s)"
  by (simp add: live_def set_speed_def update_command_time_def)

lemma init_live: "\<exists>r. SafeMotorController_init now g = Inr r \<and> live r \<and> \<not> is_moving r"
  by (simp add: SafeMotorController_init_def MOTOR_PINS_keys_def WATCHDOG_PIN_def
      GPIO_setmode_def GPIO_setwarnings_def GPIO_setup_def GPIO_output_def GPIO_PWM_def
      pwm_start_zero live_def pins_configured_def)

lemma live_preserved:
  assumes "live s"
  shows "live (snd (execute_command tok now s))"
    and "live (snd (cmd_vel_callback linear_x angular_z now s))"
    and "live (set_speed p now s)"
    and "live (snd (emergency_stop_motors s))"
    and "live (snd (watchdog_tick now s))"
    and "live (snd (heartbeat_tick hb s))"
  using assms
  by (simp_all add: live_cong [OF execute_command_keeps_setup]
      live_cong [OF cmd_vel_callback_keeps_setup] set_speed_live
      live_cong [OF emergency_stop_motors_keeps_setup]
      live_cong [OF watchdog_tick_keeps_setup] live_cong [OF heartbeat_tick_keeps_setup])

lemma live_effective_speed:
  "live s \<Longrightarrow> pins_configured (hw s) \<and> 0 \<le> effective_speed None s \<and> effective_speed None s \<le> 100"
  by (simp add: live_def effective_speed_def)

lemma watchdog_tick_returns: "fst (watchdog_tick now s) = None"
  by (cases "is_moving s \<and> now - last_command_time s > WATCHDOG_TIMEOUT")
     (simp_all add: watchdog_tick_fires watchdog_tick_quiet)

lemma watchdog_loop_pass:
  "watchdog_active s \<Longrightarrow>
     watchdog_loop (now # ts) s = watchdog_loop ts (snd (watchdog_tick now s))"
  using watchdog_tick_returns [of now s]
  by (cases "watchdog_tick now s") simp

lemma watchdog_loop_returns: "fst (watchdog_loop ts s) = None"
proof (induction ts arbitrary: s)
  case Nil
  then show ?case by simp
next
  case (Cons t ts)
  show ?case
  proof (cases "watchdog_active s")
    case True
    then show ?thesis by (simp only: watchdog_loop_pass Cons.IH)
  next
    case False
    then show ?thesis by simp
  qed
qed

section \<open>The claims\<close>

text \<open>
  C4. For every integer \<open>p\<close>, \<^verbatim>\<open>set_speed(p)\<close> leaves \<open>current_speed\<close> at \<open>p\<close> clamped
  into \<open>[0, 100]\<close> and \<open>last_command_time\<close> at the clock reading, and changes nothing
  else: the driver state (direction pins), the two PWM channels and \<open>is_moving\<close> are as
  before.
\<close>

theorem set_speed_clamps:
  "set_speed p now s = s\<lparr>last_command_time := now, current_speed := spec_clamp p 0 100\<rparr>
   \<and> current_speed (set_speed p now s) = spec_clamp p 0 100
   \<and> last_command_time (set_speed p now s) = now
   \<and> hw (set_speed p now s) = hw s
   \<and> pwm_a (set_speed p now s) = pwm_a s
   \<and> pwm_b (set_speed p now s) = pwm_b s
   \<and> is_moving (set_speed p now s) = is_moving s"
  by (simp add: set_speed_def update_command_time_def spec_clamp_def max_def min_def)

text \<open>
  C1. A pass of the watchdog loop taken while \<open>is_moving\<close> holds and more than
  \<open>WATCHDOG_TIMEOUT\<close> has gone by since \<open>last_command_time\<close> runs the forced stop
  (\<^verbatim>\<open>_emergency_stop_motors\<close>) and then clears \<open>is_moving\<close>: both enable channels are
  at duty 0 and, on a driver whose pins are configured, the four direction pins are LOW.
  In every other state the pass changes nothing. Neither a heartbeat pass, nor the forced
  stop by itself, nor \<^verbatim>\<open>cleanup\<close> changes \<open>is_moving\<close>.
\<close>

theorem watchdog_tick_forces_stop:
  "(is_moving s \<and> now - last_command_time s > WATCHDOG_TIMEOUT \<longrightarrow>
      watchdog_tick now s =
        (None, (snd (emergency_stop_motors
                       (s\<lparr>console := console s @ [Printed ''Watchdog timeout - stopping motors'']\<rparr>)))
                 \<lparr>is_moving := False\<rparr>)
      \<and> \<not> is_moving (snd (watchdog_tick now s))
      \<and> enable_duty (snd (watchdog_tick now s)) = (0, 0)
      \<and> (pins_configured (hw s) \<longrightarrow>
           direction_pins (hw (snd (watchdog_tick now s))) = (LOW, LOW, LOW, LOW)))
   \<and> (\<not> (is_moving s \<and> now - last_command_time s > WATCHDOG_TIMEOUT) \<longrightarrow>
        watchdog_tick now s = (None, s))
   \<and> is_moving (snd (heartbeat_tick hb s)) = is_moving s
   \<and> is_moving (snd (emergency_stop_motors s)) = is_moving s
   \<and> is_moving (snd (cleanup s)) = is_moving s"
proof -
  let ?s1 = "s\<lparr>console := console s @ [Printed ''Watchdog timeout - stopping motors'']\<rparr>"
  have duty: "enable_duty ((snd (emergency_stop_motors ?s1))\<lparr>is_moving := False\<rparr>) = (0, 0)"
    using emergency_stop_motors_duty [of ?s1] by (simp add: enable_duty_def)
  have pins: "direction_pins (hw ((snd (emergency_stop_motors ?s1))\<lparr>is_moving := False\<rparr>))
                = (LOW, LOW, LOW, LOW)" if "pins_configured (hw s)"
  proof -
    from that have "pins_configured (hw ?s1)" by simp
    from emergency_stop_motors_configured [OF this] show ?thesis
      by (simp add: direction_pins_def WATCHDOG_PIN_def)
  qed
  show ?thesis
    using duty pins
    by (simp add: watchdog_tick_fires watchdog_tick_quiet heartbeat_tick_keeps
        emergency_stop_motors_keeps cleanup_keeps)
qed

theorem watchdog_tick_forces_stop_witness:
  "is_moving cruising_robot
   \<and> 3 - last_command_time cruising_robot > WATCHDOG_TIMEOUT
   \<and> pins_configured (hw cruising_robot)
   \<and> direction_pins (hw cruising_robot) = (HIGH, LOW, HIGH, LOW)
   \<and> enable_duty cruising_robot = (70, 70)
   \<and> \<not> is_moving (snd (watchdog_tick 3 cruising_robot))
   \<and> enable_duty (snd (watchdog_tick 3 cruising_robot)) = (0, 0)
   \<and> direction_pins (hw (snd (watchdog_tick 3 cruising_robot))) = (LOW, LOW, LOW, LOW)
   \<and> watchdog_tick 1 cruising_robot = (None, cruising_robot)"
proof -
  have fire: "is_moving cruising_robot \<and> 3 - last_command_time cruising_robot > WATCHDOG_TIMEOUT"
    by (simp add: cruising_robot_fields WATCHDOG_TIMEOUT_def)
  have quiet: "\<not> (is_moving cruising_robot \<and> 1 - last_command_time cruising_robot > WATCHDOG_TIMEOUT)"
    by (simp add: cruising_robot_fields WATCHDOG_TIMEOUT_def)
  from watchdog_tick_forces_stop [of cruising_robot 3 True] fire cruising_robot_configured
  have fired: "\<not> is_moving (snd (watchdog_tick 3 cruising_robot))
      \<and> enable_duty (snd (watchdog_tick 3 cruising_robot)) = (0, 0)
      \<and> direction_pins (hw (snd (watchdog_tick 3 cruising_robot))) = (LOW, LOW, LOW, LOW)"
    by blast
  from watchdog_tick_forces_stop [of cruising_robot 1 True] quiet
  have kept: "watchdog_tick 1 cruising_robot = (None, cruising_robot)"
    by blast
  from fire fired kept cruising_robot_configured cruising_robot_fields show ?thesis
    by blast
qed

text \<open>
  C2. \<^verbatim>\<open>_emergency_stop_motors\<close> returns from every state with both enable channels at
  duty 0; on a driver whose pins are configured it leaves IN1..IN4 LOW and the hardware
  watchdog pin LOW. Applied twice it gives the driver state and the two PWM channels that
  one application gives, in every state, and on a configured driver the whole state.
\<close>

theorem emergency_stop_motors_safe_idempotent:
  "fst (emergency_stop_motors s) = None
   \<and> enable_duty (snd (emergency_stop_motors s)) = (0, 0)
   \<and> (pins_configured (hw s) \<longrightarrow>
         direction_pins (hw (snd (emergency_stop_motors s))) = (LOW, LOW, LOW, LOW)
         \<and> level (hw (snd (emergency_stop_motors s))) WATCHDOG_PIN = LOW
         \<and> emergency_stop_motors (snd (emergency_stop_motors s)) = emergency_stop_motors s)
   \<and> hw (snd (emergency_stop_motors (snd (emergency_stop_motors s)))) =
       hw (snd (emergency_stop_motors s))
   \<and> pwm_a (snd (emergency_stop_motors (snd (emergency_stop_motors s)))) =
       pwm_a (snd (emergency_stop_motors s))
   \<and> pwm_b (snd (emergency_stop_motors (snd (emergency_stop_motors s)))) =
       pwm_b (snd (emergency_stop_motors s))"
proof -
  have conf: "direction_pins (hw (snd (emergency_stop_motors s))) = (LOW, LOW, LOW, LOW)
         \<and> level (hw (snd (emergency_stop_motors s))) WATCHDOG_PIN = LOW
         \<and> emergency_stop_motors (snd (emergency_stop_motors s)) = emergency_stop_motors s"
    if cfg: "pins_configured (hw s)"
  proof -
    let ?s1 = "snd (emergency_stop_motors s)"
    have cfg1: "pins_configured (hw ?s1)"
      using cfg by (simp add: emergency_stop_motors_configured [OF cfg] pins_configured_def)
    show ?thesis
      by (simp add: emergency_stop_motors_configured [OF cfg1])
         (simp add: emergency_stop_motors_configured [OF cfg] direction_pins_def WATCHDOG_PIN_def)
  qed
  show ?thesis
    using conf emergency_stop_motors_twice [of s] emergency_stop_motors_duty [of s]
    by (simp add: emergency_stop_motors_returns enable_duty_def)
qed

theorem emergency_stop_motors_safe_idempotent_witness:
  "pins_configured (hw cruising_robot)
   \<and> direction_pins (hw cruising_robot) = (HIGH, LOW, HIGH, LOW)
   \<and> enable_duty cruising_robot = (70, 70)
   \<and> enable_duty (snd (emergency_stop_motors cruising_robot)) = (0, 0)
   \<and> direction_pins (hw (snd (emergency_stop_motors cruising_robot))) = (LOW, LOW, LOW, LOW)
   \<and> level (hw (snd (emergency_stop_motors cruising_robot))) WATCHDOG_PIN = LOW
   \<and> emergency_stop_motors (snd (emergency_stop_motors cruising_robot)) =
       emergency_stop_motors cruising_robot"
  using emergency_stop_motors_safe_idempotent [of cruising_robot]
    cruising_robot_configured cruising_robot_fields
  by blast

text \<open>
  C3, as stated, fails for an explicit speed the driver refuses. \<^verbatim>\<open>cmd_vel_callback\<close>
  turns \<open>linear.x = 1.5\<close> into \<^verbatim>\<open>move_forward(150.0)\<close>: the direction pins are written,
  \<^verbatim>\<open>ChangeDutyCycle(150.0)\<close> raises ValueError, and the enable channels stay at 0 and
  \<open>is_moving\<close> stays false.
\<close>

theorem explicit_speed_refused_counterexample:
  "pins_configured (hw idle_robot)
   \<and> effective_speed (Some 150) idle_robot = 150
   \<and> cmd_vel_callback (3 / 2) 0 1 idle_robot =
        move_forward (Some 150) 1 (update_command_time 1 idle_robot)
   \<and> fst (move_forward (Some 150) 1 idle_robot) = Some ValueError
   \<and> direction_pins (hw (snd (move_forward (Some 150) 1 idle_robot))) = (HIGH, LOW, HIGH, LOW)
   \<and> enable_duty (snd (move_forward (Some 150) 1 idle_robot)) = (0, 0)
   \<and> enable_duty (snd (move_forward (Some 150) 1 idle_robot)) \<noteq> (150, 150)
   \<and> \<not> is_moving (snd (move_forward (Some 150) 1 idle_robot))"
proof -
  have out: "c_float (effective_speed (Some 150) idle_robot) < 0
           \<or> 100 < c_float (effective_speed (Some 150) idle_robot)"
    by (simp add: effective_speed_Some c_float_examples)
  have idle: "enable_duty idle_robot = (0, 0)" "\<not> is_moving idle_robot"
    by (simp_all add: idle_robot_def enable_duty_def)
  have vel: "cmd_vel_callback (3 / 2) 0 1 idle_robot =
        move_forward (Some 150) 1 (update_command_time 1 idle_robot)"
    using cmd_vel_linear(1) [of 0 "3 / 2" 1 idle_robot] by simp
  from movement_refused(1) [OF idle_robot_configured out, of 1]
    movement_direction(1) [OF idle_robot_configured, of "Some 150" 1] idle vel
  show ?thesis
    by (simp add: idle_robot_configured effective_speed_Some)
qed

text \<open>
  C3, amended. On a configured driver each of \<^verbatim>\<open>move_forward\<close>, \<^verbatim>\<open>move_backward\<close>,
  \<^verbatim>\<open>turn_left\<close>, \<^verbatim>\<open>turn_right\<close> leaves IN1..IN4 as in the truth table, whatever the
  speed. When the effective speed (the argument when one is given, \<open>current_speed\<close>
  otherwise) lies in 0..100, the method returns with both enable channels at that speed
  as the driver holds it, narrowed to a C float, and with \<open>is_moving\<close> set. With no
  argument and \<open>current_speed\<close> a percentage the duty is exactly \<open>current_speed\<close>; the
  tokens \<open>forward\<close>, \<open>backward\<close>, \<open>left\<close>, \<open>right\<close> run the methods that way.
\<close>

theorem movement_truth_table:
  assumes "pins_configured (hw s)"
  shows "direction_pins (hw (snd (move_forward speed now s))) = (HIGH, LOW, HIGH, LOW)
     \<and> direction_pins (hw (snd (move_backward speed now s))) = (LOW, HIGH, LOW, HIGH)
     \<and> direction_pins (hw (snd (turn_left speed now s))) = (LOW, HIGH, HIGH, LOW)
     \<and> direction_pins (hw (snd (turn_right speed now s))) = (HIGH, LOW, LOW, HIGH)
     \<and> (0 \<le> effective_speed speed s \<and> effective_speed speed s \<le> 100 \<longrightarrow>
          fst (move_forward speed now s) = None
        \<and> enable_duty (snd (move_forward speed now s)) =
            (c_float (effective_speed speed s), c_float (effective_speed speed s))
        \<and> is_moving (snd (move_forward speed now s))
        \<and> fst (move_backward speed now s) = None
        \<and> enable_duty (snd (move_backward speed now s)) =
            (c_float (effective_speed speed s), c_float (effective_speed speed s))
        \<and> is_moving (snd (move_backward speed now s))
        \<and> fst (turn_left speed now s) = None
        \<and> enable_duty (snd (turn_left speed now s)) =
            (c_float (effective_speed speed s), c_float (effective_speed speed s))
        \<and> is_moving (snd (turn_left speed now s))
        \<and> fst (turn_right speed now s) = None
        \<and> enable_duty (snd (turn_right speed now s)) =
            (c_float (effective_speed speed s), c_float (effective_speed speed s))
        \<and> is_moving (snd (turn_right speed now s)))
     \<and> effective_speed None s = of_int (current_speed s)
     \<and> effective_speed (Some v) s = v
     \<and> (0 \<le> current_speed s \<and> current_speed s \<le> 100 \<longrightarrow>
          c_float (effective_speed None s) = of_int (current_speed s))
     \<and> (speed = None \<and> 0 \<le> current_speed s \<and> current_speed s \<le> 100 \<longrightarrow>
          execute_command ''forward'' now s =
            emit (Info ''Moving forward'') (snd (move_forward speed now s))
          \<and> execute_command ''backward'' now s =
            emit (Info ''Moving backward'') (snd (move_backward speed now s))
          \<and> execute_command ''left'' now s =
            emit (Info ''Turning left'') (snd (turn_left speed now s))
          \<and> execute_command ''right'' now s =
            emit (Info ''Turning right'') (snd (turn_right speed now s)))"
proof -
  note cfg = assms
  have acc: "fst (move_forward speed now s) = None
        \<and> enable_duty (snd (move_forward speed now s)) =
            (c_float (effective_speed speed s), c_float (effective_speed speed s))
        \<and> is_moving (snd (move_forward speed now s))
        \<and> fst (move_backward speed now s) = None
        \<and> enable_duty (snd (move_backward speed now s)) =
            (c_float (effective_speed speed s), c_float (effective_speed speed s))
        \<and> is_moving (snd (move_backward speed now s))
        \<and> fst (turn_left speed now s) = None
        \<and> enable_duty (snd (turn_left speed now s)) =
            (c_float (effective_speed speed s), c_float (effective_speed speed s))
        \<and> is_moving (snd (turn_left speed now s))
        \<and> fst (turn_right speed now s) = None
        \<and> enable_duty (snd (turn_right speed now s)) =
            (c_float (effective_speed speed s), c_float (effective_speed speed s))
        \<and> is_moving (snd (turn_right speed now s))"
    if rng: "0 \<le> effective_speed speed s \<and> effective_speed speed s \<le> 100"
  proof -
    from rng have ok: "\<not> (c_float (effective_speed speed s) < 0
                        \<or> 100 < c_float (effective_speed speed s))"
      by (intro percentage_accepted) simp_all
    from movement_accepted [OF cfg ok, of now] show ?thesis by blast
  qed
  have e: "effective_speed None s = of_int (current_speed s) \<and> effective_speed (Some v) s = v"
    by (simp add: effective_speed_def)
  have exact: "c_float (effective_speed None s) = of_int (current_speed s)"
    if "0 \<le> current_speed s \<and> current_speed s \<le> 100"
    using that by (simp add: effective_speed_def c_float_of_int)
  have d: "execute_command ''forward'' now s =
            emit (Info ''Moving forward'') (snd (move_forward speed now s))
          \<and> execute_command ''backward'' now s =
            emit (Info ''Moving backward'') (snd (move_backward speed now s))
          \<and> execute_command ''left'' now s =
            emit (Info ''Turning left'') (snd (turn_left speed now s))
          \<and> execute_command ''right'' now s =
            emit (Info ''Turning right'') (snd (turn_right speed now s))"
    if h: "speed = None \<and> 0 \<le> current_speed s \<and> current_speed s \<le> 100"
  proof -
    from h have "0 \<le> effective_speed None s \<and> effective_speed None s \<le> 100"
      by (simp add: effective_speed_def)
    then have ok: "\<not> (c_float (effective_speed None s) < 0
                        \<or> 100 < c_float (effective_speed None s))"
      by (intro percentage_accepted) simp_all
    from h ok show ?thesis
      by (simp add: execute_command_def lower_tokens move_forward_configured [OF cfg]
          move_backward_configured [OF cfg] turn_left_configured [OF cfg]
          turn_right_configured [OF cfg] emit_def)
  qed
  from movement_direction [OF cfg, of speed now] acc e exact d show ?thesis by blast
qed

theorem movement_truth_table_witness:
  "pins_configured (hw idle_robot)
   \<and> current_speed idle_robot = 70
   \<and> 0 \<le> effective_speed None idle_robot \<and> effective_speed None idle_robot \<le> 100
   \<and> fst (execute_command ''forward'' 1 idle_robot) = None
   \<and> direction_pins (hw (snd (execute_command ''forward'' 1 idle_robot))) = (HIGH, LOW, HIGH, LOW)
   \<and> enable_duty (snd (execute_command ''forward'' 1 idle_robot)) = (70, 70)
   \<and> is_moving (snd (execute_command ''forward'' 1 idle_robot))
   \<and> direction_pins (hw (snd (turn_right None 1 idle_robot))) = (HIGH, LOW, LOW, HIGH)
   \<and> 0 \<le> effective_speed (Some (333 / 10)) idle_robot
   \<and> effective_speed (Some (333 / 10)) idle_robot \<le> 100
   \<and> fst (move_backward (Some (333 / 10)) 1 idle_robot) = None
   \<and> direction_pins (hw (snd (move_backward (Some (333 / 10)) 1 idle_robot))) =
        (LOW, HIGH, LOW, HIGH)
   \<and> enable_duty (snd (move_backward (Some (333 / 10)) 1 idle_robot)) =
        (8729395 / 262144, 8729395 / 262144)
   \<and> is_moving (snd (move_backward (Some (333 / 10)) 1 idle_robot))"
proof -
  have sp: "effective_speed None idle_robot = 70" "current_speed idle_robot = 70"
    by (simp_all add: effective_speed_def idle_robot_def)
  have rng: "0 \<le> effective_speed None idle_robot \<and> effective_speed None idle_robot \<le> 100"
    "0 \<le> current_speed idle_robot \<and> current_speed idle_robot \<le> 100"
    by (simp_all add: sp)
  note t = movement_truth_table [OF idle_robot_configured, of None 1 0]
  from t rng have run: "execute_command ''forward'' 1 idle_robot =
            emit (Info ''Moving forward'') (snd (move_forward None 1 idle_robot))"
    by blast
  from t rng have m: "fst (move_forward None 1 idle_robot) = None
      \<and> direction_pins (hw (snd (move_forward None 1 idle_robot))) = (HIGH, LOW, HIGH, LOW)
      \<and> enable_duty (snd (move_forward None 1 idle_robot)) =
          (c_float (effective_speed None idle_robot), c_float (effective_speed None idle_robot))
      \<and> is_moving (snd (move_forward None 1 idle_robot))
      \<and> c_float (effective_speed None idle_robot) = of_int (current_speed idle_robot)
      \<and> direction_pins (hw (snd (turn_right None 1 idle_robot))) = (HIGH, LOW, LOW, HIGH)"
    by blast
  with sp have a: "fst (execute_command ''forward'' 1 idle_robot) = None
   \<and> direction_pins (hw (snd (execute_command ''forward'' 1 idle_robot))) = (HIGH, LOW, HIGH, LOW)
   \<and> enable_duty (snd (execute_command ''forward'' 1 idle_robot)) = (70, 70)
   \<and> is_moving (snd (execute_command ''forward'' 1 idle_robot))
   \<and> direction_pins (hw (snd (turn_right None 1 idle_robot))) = (HIGH, LOW, LOW, HIGH)"
    by (simp add: run emit_def enable_duty_def)
  have fr: "0 \<le> effective_speed (Some (333 / 10)) idle_robot
          \<and> effective_speed (Some (333 / 10)) idle_robot \<le> 100"
    by (simp add: effective_speed_Some)
  from movement_truth_table [OF idle_robot_configured, of "Some (333 / 10)" 1 0] fr
  have "fst (move_backward (Some (333 / 10)) 1 idle_robot) = None
   \<and> direction_pins (hw (snd (move_backward (Some (333 / 10)) 1 idle_robot))) =
        (LOW, HIGH, LOW, HIGH)
   \<and> enable_duty (snd (move_backward (Some (333 / 10)) 1 idle_robot)) =
        (c_float (effective_speed (Some (333 / 10)) idle_robot),
         c_float (effective_speed (Some (333 / 10)) idle_robot))
   \<and> is_moving (snd (move_backward (Some (333 / 10)) 1 idle_robot))"
    by blast
  then have b: "fst (move_backward (Some (333 / 10)) 1 idle_robot) = None
   \<and> direction_pins (hw (snd (move_backward (Some (333 / 10)) 1 idle_robot))) =
        (LOW, HIGH, LOW, HIGH)
   \<and> enable_duty (snd (move_backward (Some (333 / 10)) 1 idle_robot)) =
        (8729395 / 262144, 8729395 / 262144)
   \<and> is_moving (snd (move_backward (Some (333 / 10)) 1 idle_robot))"
    by (simp add: effective_speed_Some c_float_examples)
  from a b sp rng fr idle_robot_configured show ?thesis by blast
qed

text \<open>
  C5. \<^verbatim>\<open>stop\<close> sets \<open>last_command_time\<close> to the clock reading and both enable channels
  to duty 0 in every state; on a configured driver it returns with IN1..IN4 LOW and
  \<open>is_moving\<close> cleared, and a watchdog pass taken afterwards, at any time, changes nothing
  and prints nothing. From any state at all, a watchdog pass taken within
  \<open>WATCHDOG_TIMEOUT\<close> of the stop changes nothing.
\<close>

theorem stop_is_liveness_signal:
  "last_command_time (snd (stop now s)) = now
   \<and> enable_duty (snd (stop now s)) = (0, 0)
   \<and> (pins_configured (hw s) \<longrightarrow>
         fst (stop now s) = None
         \<and> direction_pins (hw (snd (stop now s))) = (LOW, LOW, LOW, LOW)
         \<and> \<not> is_moving (snd (stop now s))
         \<and> watchdog_tick t (snd (stop now s)) = (None, snd (stop now s)))
   \<and> (t - now \<le> WATCHDOG_TIMEOUT \<longrightarrow>
         watchdog_tick t (snd (stop now s)) = (None, snd (stop now s)))"
proof -
  have a: "last_command_time (snd (stop now s)) = now \<and> enable_duty (snd (stop now s)) = (0, 0)"
    using stop_always [of now s] by (simp add: enable_duty_def)
  have b: "fst (stop now s) = None
         \<and> direction_pins (hw (snd (stop now s))) = (LOW, LOW, LOW, LOW)
         \<and> \<not> is_moving (snd (stop now s))
         \<and> watchdog_tick t (snd (stop now s)) = (None, snd (stop now s))"
    if cfg: "pins_configured (hw s)"
  proof -
    have still: "\<not> is_moving (snd (stop now s))"
      by (simp add: stop_configured [OF cfg])
    then have "watchdog_tick t (snd (stop now s)) = (None, snd (stop now s))"
      by (simp add: watchdog_tick_quiet)
    with still show ?thesis
      by (simp add: stop_configured [OF cfg] direction_pins_def)
  qed
  have c: "watchdog_tick t (snd (stop now s)) = (None, snd (stop now s))"
    if "t - now \<le> WATCHDOG_TIMEOUT"
  proof -
    from that a have "\<not> (t - last_command_time (snd (stop now s)) > WATCHDOG_TIMEOUT)"
      by simp
    then show ?thesis by (simp add: watchdog_tick_quiet)
  qed
  from a b c show ?thesis by blast
qed

theorem stop_is_liveness_signal_witness:
  "pins_configured (hw cruising_robot)
   \<and> is_moving cruising_robot
   \<and> 5 - last_command_time cruising_robot > WATCHDOG_TIMEOUT
   \<and> (5::rat) - 5 \<le> WATCHDOG_TIMEOUT
   \<and> fst (stop 5 cruising_robot) = None
   \<and> last_command_time (snd (stop 5 cruising_robot)) = 5
   \<and> enable_duty (snd (stop 5 cruising_robot)) = (0, 0)
   \<and> direction_pins (hw (snd (stop 5 cruising_robot))) = (LOW, LOW, LOW, LOW)
   \<and> \<not> is_moving (snd (stop 5 cruising_robot))
   \<and> watchdog_tick 5 (snd (stop 5 cruising_robot)) = (None, snd (stop 5 cruising_robot))"
proof -
  have t: "5 - last_command_time cruising_robot > WATCHDOG_TIMEOUT"
    "(5::rat) - 5 \<le> WATCHDOG_TIMEOUT"
    by (simp_all add: cruising_robot_fields WATCHDOG_TIMEOUT_def)
  from stop_is_liveness_signal [of 5 cruising_robot 5] t cruising_robot_configured
    cruising_robot_fields(1)
  show ?thesis by blast
qed

text \<open>
  C6, as stated, fails for \<open>emergency_stop\<close>: the token runs
  \<^verbatim>\<open>_emergency_stop_motors\<close>, which never calls \<^verbatim>\<open>_update_command_time\<close>. Here the
  controller last heard a command at time 0 and is told to stop in emergency at time 5.
\<close>

theorem emergency_stop_keeps_timestamp_counterexample:
  "fst (execute_command ''emergency_stop'' 5 cruising_robot) = None
   \<and> last_command_time cruising_robot = 0
   \<and> last_command_time (snd (execute_command ''emergency_stop'' 5 cruising_robot)) = 0
   \<and> last_command_time (snd (execute_command ''emergency_stop'' 5 cruising_robot)) \<noteq> 5"
proof -
  have run: "execute_command ''emergency_stop'' 5 cruising_robot =
      emit (Warn ''Emergency stop executed'') (snd (emergency_stop_motors cruising_robot))"
    using emergency_stop_motors_returns [of cruising_robot]
    by (cases "emergency_stop_motors cruising_robot")
       (simp add: execute_command_def lower_tokens emit_def)
  have "last_command_time (snd (execute_command ''emergency_stop'' 5 cruising_robot))
          = last_command_time cruising_robot"
    by (simp add: run emit_def emergency_stop_motors_keeps)
  then show ?thesis
    by (simp add: cruising_robot_fields) (simp add: run emit_def)
qed

text \<open>
  C6, amended. A token whose lower-case form is \<open>forward\<close>, \<open>backward\<close>, \<open>left\<close>, \<open>right\<close>
  or \<open>stop\<close> leaves \<open>last_command_time\<close> at the clock reading, whether or not a pin write
  fails afterwards; so does \<^verbatim>\<open>set_speed\<close>, which is what \<open>speed\<close> with an integer value
  runs. \<open>emergency_stop\<close> leaves \<open>last_command_time\<close> as it was.
\<close>

theorem commands_refresh_timestamp:
  "(lower tok \<in> {''forward'', ''backward'', ''left'', ''right'', ''stop''} \<longrightarrow>
      last_command_time (snd (execute_command tok now s)) = now)
   \<and> last_command_time (set_speed p now s) = now
   \<and> (py_int v = Inr p \<longrightarrow>
        handle_control_command [''cmd'' \<mapsto> [''speed''], ''value'' \<mapsto> [v]] now (Some s) =
          (Response 200 (SpeedSetTo p), Some (set_speed p now s)))
   \<and> (lower tok = ''emergency_stop'' \<longrightarrow>
        last_command_time (snd (execute_command tok now s)) = last_command_time s)"
proof -
  have a: "last_command_time (snd (execute_command tok now s)) = now"
    if "lower tok \<in> {''forward'', ''backward'', ''left'', ''right'', ''stop''}"
    using that stop_always [of now s]
    by (auto simp: execute_command_def then_emit_keeps_time movement_sets_time
        simp del: steps.simps)
  have b: "last_command_time (set_speed p now s) = now"
    by (simp add: set_speed_def update_command_time_def)
  have c: "handle_control_command [''cmd'' \<mapsto> [''speed''], ''value'' \<mapsto> [v]] now (Some s) =
          (Response 200 (SpeedSetTo p), Some (set_speed p now s))" if "py_int v = Inr p"
    using that by (simp add: handle_control_command_def)
  have d: "last_command_time (snd (execute_command tok now s)) = last_command_time s"
    if "lower tok = ''emergency_stop''"
    using that
    by (simp add: execute_command_def then_emit_keeps_time emergency_stop_motors_keeps
        del: steps.simps)
  from a b c d show ?thesis by blast
qed

theorem commands_refresh_timestamp_witness:
  "lower ''stop'' \<in> {''forward'', ''backward'', ''left'', ''right'', ''stop''}
   \<and> last_command_time cruising_robot = 0
   \<and> last_command_time (snd (execute_command ''stop'' 5 cruising_robot)) = 5
   \<and> py_int ''150'' = Inr 150
   \<and> handle_control_command [''cmd'' \<mapsto> [''speed''], ''value'' \<mapsto> [''150'']] 5 (Some cruising_robot) =
          (Response 200 (SpeedSetTo 150), Some (set_speed 150 5 cruising_robot))
   \<and> last_command_time (set_speed 150 5 cruising_robot) = 5
   \<and> lower ''emergency_stop'' = ''emergency_stop''
   \<and> last_command_time (snd (execute_command ''emergency_stop'' 5 cruising_robot)) = 0"
proof -
  have h: "lower ''stop'' \<in> {''forward'', ''backward'', ''left'', ''right'', ''stop''}"
    "lower ''emergency_stop'' = ''emergency_stop''"
    by (simp_all add: lower_tokens)
  from commands_refresh_timestamp [of "''stop''" 5 cruising_robot 150 "''150''"] h(1)
    py_int_examples(1)
  have a: "last_command_time (snd (execute_command ''stop'' 5 cruising_robot)) = 5
     \<and> handle_control_command [''cmd'' \<mapsto> [''speed''], ''value'' \<mapsto> [''150'']] 5 (Some cruising_robot) =
          (Response 200 (SpeedSetTo 150), Some (set_speed 150 5 cruising_robot))
     \<and> last_command_time (set_speed 150 5 cruising_robot) = 5"
    by blast
  from commands_refresh_timestamp [of "''emergency_stop''" 5 cruising_robot 150 "''150''"] h(2)
  have b: "last_command_time (snd (execute_command ''emergency_stop'' 5 cruising_robot)) = 0"
    by (simp add: cruising_robot_fields)
  from a b h py_int_examples(1) cruising_robot_fields(2) show ?thesis by blast
qed

text \<open>
  C8, as stated, fails for a token that differs from a valid one by case only:
  \<^verbatim>\<open>execute_command\<close> lower-cases its argument first, so \<open>FORWARD\<close>, which is not in the
  valid set, drives the idle robot forward.
\<close>

theorem uppercase_token_counterexample:
  "''FORWARD'' \<notin> {''forward'', ''backward'', ''left'', ''right'', ''stop'', ''speed'', ''emergency_stop''}
   \<and> \<not> is_moving idle_robot
   \<and> direction_pins (hw idle_robot) = (LOW, LOW, LOW, LOW)
   \<and> fst (execute_command ''FORWARD'' 1 idle_robot) = None
   \<and> is_moving (snd (execute_command ''FORWARD'' 1 idle_robot))
   \<and> direction_pins (hw (snd (execute_command ''FORWARD'' 1 idle_robot))) = (HIGH, LOW, HIGH, LOW)
   \<and> enable_duty (snd (execute_command ''FORWARD'' 1 idle_robot)) = (70, 70)
   \<and> console (snd (execute_command ''FORWARD'' 1 idle_robot)) =
       console idle_robot @ [Info ''Moving forward'']"
proof -
  have sp: "effective_speed None idle_robot = 70"
    by (simp add: effective_speed_def idle_robot_def)
  have run: "execute_command ''FORWARD'' 1 idle_robot =
      emit (Info ''Moving forward'') (snd (move_forward None 1 idle_robot))"
    by (simp add: execute_command_def lower_tokens
        move_forward_configured [OF idle_robot_configured] sp emit_def c_float_examples)
  have idle: "\<not> is_moving idle_robot" "direction_pins (hw idle_robot) = (LOW, LOW, LOW, LOW)"
    by (simp_all add: idle_robot_def direction_pins_def)
  show ?thesis
    using idle
    by (simp add: run emit_def move_forward_configured [OF idle_robot_configured] sp
        direction_pins_def enable_duty_def WATCHDOG_PIN_def c_float_examples)
qed

text \<open>
  C8, amended. For every token whose lower-case form is outside the valid set,
  \<^verbatim>\<open>execute_command\<close> returns normally with one warning \<open>Unknown command\<close> added to the
  console and nothing else changed: driver state, PWM channels, \<open>is_moving\<close>, speed and
  timestamp are as before, so no stop of any kind is performed.
\<close>

theorem unknown_token_is_ignored:
  assumes "lower tok \<notin> {''forward'', ''backward'', ''left'', ''right'', ''stop'', ''speed'',
                          ''emergency_stop''}"
  shows "execute_command tok now s =
           (None, s\<lparr>console := console s @ [Warn (''Unknown command: '' @ lower tok)]\<rparr>)
     \<and> hw (snd (execute_command tok now s)) = hw s
     \<and> pwm_a (snd (execute_command tok now s)) = pwm_a s
     \<and> pwm_b (snd (execute_command tok now s)) = pwm_b s
     \<and> is_moving (snd (execute_command tok now s)) = is_moving s
     \<and> current_speed (snd (execute_command tok now s)) = current_speed s
     \<and> last_command_time (snd (execute_command tok now s)) = last_command_time s
     \<and> watchdog_active (snd (execute_command tok now s)) = watchdog_active s"
proof -
  from assms
  have "lower tok \<notin> {''forward'', ''backward'', ''left'', ''right'', ''stop'', ''emergency_stop''}"
    by simp
  then show ?thesis by (simp add: unknown_command)
qed

theorem unknown_token_is_ignored_witness:
  "lower ''banana'' \<notin> {''forward'', ''backward'', ''left'', ''right'', ''stop'', ''speed'',
                          ''emergency_stop''}
   \<and> is_moving cruising_robot
   \<and> execute_command ''banana'' 5 cruising_robot =
        (None, cruising_robot\<lparr>console := console cruising_robot @ [Warn ''Unknown command: banana'']\<rparr>)
   \<and> is_moving (snd (execute_command ''banana'' 5 cruising_robot))
   \<and> hw (snd (execute_command ''banana'' 5 cruising_robot)) = hw cruising_robot
   \<and> enable_duty (snd (execute_command ''banana'' 5 cruising_robot)) = (70, 70)"
proof -
  have h: "lower ''banana'' \<notin> {''forward'', ''backward'', ''left'', ''right'', ''stop'', ''speed'',
                          ''emergency_stop''}"
    by (simp add: lower_tokens)
  from unknown_token_is_ignored [OF h, of 5 cruising_robot] h cruising_robot_fields
  show ?thesis by (simp add: lower_tokens enable_duty_def)
qed

text \<open>
  C9, as stated, fails for the enable channels of a running controller:
  \<^verbatim>\<open>emergency_stop()\<close> has no reference to the instance, so it writes the pins and
  leaves the two PWM channels as they are. Run while the robot drives at 70, it leaves
  both channels running at duty 70.
\<close>

theorem hook_keeps_duty_counterexample:
  "enable_duty cruising_robot = (70, 70)
   \<and> running (pwm_a cruising_robot) \<and> running (pwm_b cruising_robot)
   \<and> fst (at_exit cruising_robot) = Printed ''Emergency stop executed''
   \<and> direction_pins (hw (snd (at_exit cruising_robot))) = (LOW, LOW, LOW, LOW)
   \<and> enable_duty (snd (at_exit cruising_robot)) = (70, 70)
   \<and> enable_duty (snd (at_exit cruising_robot)) \<noteq> (0, 0)
   \<and> running (pwm_a (snd (at_exit cruising_robot)))
   \<and> running (pwm_b (snd (at_exit cruising_robot)))"
  by (simp add: at_exit_def emergency_stop_result enable_duty_def direction_pins_def
      cruising_robot_eq)
     (simp add: idle_robot_def)

text \<open>
  C9, amended. The module-level \<^verbatim>\<open>emergency_stop\<close>, from every driver state (nothing
  configured yet, a running controller, or after \<^verbatim>\<open>cleanup\<close>): it prints that it
  executed, every pin of \<^verbatim>\<open>MOTOR_PINS\<close> (direction and enable) and the hardware watchdog
  pin is an output at LOW, and running it again gives the same result. It is a function
  of the driver state alone, the pins coming from \<^verbatim>\<open>MOTOR_PINS\<close> and \<^verbatim>\<open>WATCHDOG_PIN\<close>,
  and it leaves the PWM channels of a controller untouched. \<^verbatim>\<open>cleanup\<close> always returns,
  with the watchdog disarmed and both channels stopped at duty 0, and
  \<^verbatim>\<open>emergency_stop\<close> after it still brings the direction pins LOW.
\<close>

theorem emergency_stop_total_idempotent:
  "fst (emergency_stop g) = Printed ''Emergency stop executed''
   \<and> mode_set (snd (emergency_stop g))
   \<and> (\<forall>n. MOTOR_PINS n \<in> outputs (snd (emergency_stop g))
          \<and> level (snd (emergency_stop g)) (MOTOR_PINS n) = LOW)
   \<and> WATCHDOG_PIN \<in> outputs (snd (emergency_stop g))
   \<and> level (snd (emergency_stop g)) WATCHDOG_PIN = LOW
   \<and> emergency_stop (snd (emergency_stop g)) = emergency_stop g
   \<and> direction_pins (snd (emergency_stop fresh_gpio)) = (LOW, LOW, LOW, LOW)
   \<and> fst (cleanup s) = None
   \<and> \<not> watchdog_active (snd (cleanup s))
   \<and> enable_duty (snd (cleanup s)) = (0, 0)
   \<and> direction_pins (snd (emergency_stop (hw (snd (cleanup s))))) = (LOW, LOW, LOW, LOW)
   \<and> at_exit s = (Printed ''Emergency stop executed'', s\<lparr>hw := snd (emergency_stop (hw s))\<rparr>)
   \<and> pwm_a (snd (at_exit s)) = pwm_a s
   \<and> pwm_b (snd (at_exit s)) = pwm_b s
   \<and> at_exit (snd (at_exit s)) = at_exit s
   \<and> \<not> running (pwm_a (snd (cleanup s)))
   \<and> \<not> running (pwm_b (snd (cleanup s)))
   \<and> enable_duty (snd (at_exit (snd (cleanup s)))) = (0, 0)"
proof -
  have pins: "MOTOR_PINS n \<in> outputs (snd (emergency_stop g))
          \<and> level (snd (emergency_stop g)) (MOTOR_PINS n) = LOW" for n
    by (cases n) (simp_all add: emergency_stop_result)
  have dir: "direction_pins (snd (emergency_stop h)) = (LOW, LOW, LOW, LOW)" for h
    by (simp add: emergency_stop_result direction_pins_def)
  let ?s1 = "s\<lparr>console := console s @ [Printed ''Cleaning up motor controller...''],
               watchdog_active := False\<rparr>"
  have cl: "\<not> watchdog_active (snd (cleanup s)) \<and> enable_duty (snd (cleanup s)) = (0, 0)
            \<and> \<not> running (pwm_a (snd (cleanup s))) \<and> \<not> running (pwm_b (snd (cleanup s)))"
    using emergency_stop_motors_keeps [of ?s1] emergency_stop_motors_duty [of ?s1]
    by (simp add: cleanup_result Let_def enable_duty_def)
  have hook: "at_exit r = (Printed ''Emergency stop executed'', r\<lparr>hw := snd (emergency_stop (hw r))\<rparr>)"
    for r
    by (simp add: at_exit_def emergency_stop_result)
  have twice: "at_exit (snd (at_exit s)) = at_exit s"
    by (simp add: hook emergency_stop_again)
  have after: "enable_duty (snd (at_exit (snd (cleanup s)))) = (0, 0)"
    using cl by (simp add: hook enable_duty_def)
  have first: "fst (emergency_stop g) = Printed ''Emergency stop executed''
      \<and> mode_set (snd (emergency_stop g))
      \<and> WATCHDOG_PIN \<in> outputs (snd (emergency_stop g))
      \<and> level (snd (emergency_stop g)) WATCHDOG_PIN = LOW"
    by (simp add: emergency_stop_result WATCHDOG_PIN_def)
  show ?thesis
    using pins dir cl twice after first
    by (simp add: emergency_stop_again cleanup_keeps hook)
qed

text \<open>
  C7, as stated, fails when the value is absent: the handler passes \<open>speed\<close> to
  \<^verbatim>\<open>execute_command\<close>, which has no branch for it and logs an unknown command, and the
  caller receives the ordinary 200 reply, not a rejection.
\<close>

theorem speed_without_value_counterexample:
  "[''cmd'' \<mapsto> [''speed'']] ''value'' = None
   \<and> handle_control_command [''cmd'' \<mapsto> [''speed'']] 5 (Some idle_robot) =
        (Response 200 (CommandExecuted ''speed''),
         Some (idle_robot\<lparr>console := console idle_robot @ [Warn ''Unknown command: speed'']\<rparr>))
   \<and> execute_command ''speed'' 5 idle_robot =
        (None, idle_robot\<lparr>console := console idle_robot @ [Warn ''Unknown command: speed'']\<rparr>)"
  by (simp add: handle_control_command_def unknown_command lower_tokens)

text \<open>
  C7, amended. \<open>speed\<close> with no value is not rejected: it is reported as an unknown
  command in the log and answered with the success reply, with nothing but the console
  changed. A value that \<^verbatim>\<open>int()\<close> refuses raises its ValueError out of the handler
  before any state is touched. A well-formed integer of any size is accepted and clamped
  by \<^verbatim>\<open>set_speed\<close>, which changes the speed and the timestamp only.
\<close>

theorem speed_argument_handling:
  "(params ''cmd'' = Some (''speed'' # cs) \<and> params ''value'' = None \<longrightarrow>
      handle_control_command params now (Some s) =
        (Response 200 (CommandExecuted ''speed''),
         Some (s\<lparr>console := console s @ [Warn ''Unknown command: speed'']\<rparr>)))
   \<and> execute_command ''speed'' now s =
        (None, s\<lparr>console := console s @ [Warn ''Unknown command: speed'']\<rparr>)
   \<and> (params ''cmd'' = Some (''speed'' # cs) \<and> params ''value'' = Some (v # vs)
        \<and> py_int v = Inl e \<longrightarrow>
      handle_control_command params now robot_node = (Raised e, robot_node))
   \<and> (params ''cmd'' = Some (''speed'' # cs) \<and> params ''value'' = Some (v # vs)
        \<and> py_int v = Inr p \<longrightarrow>
      handle_control_command params now (Some s) =
        (Response 200 (SpeedSetTo p),
         Some (s\<lparr>last_command_time := now, current_speed := spec_clamp p 0 100\<rparr>)))"
proof -
  have u: "execute_command ''speed'' now s =
        (None, s\<lparr>console := console s @ [Warn ''Unknown command: speed'']\<rparr>)"
    by (simp add: unknown_command lower_tokens)
  have a: "handle_control_command params now (Some s) =
        (Response 200 (CommandExecuted ''speed''),
         Some (s\<lparr>console := console s @ [Warn ''Unknown command: speed'']\<rparr>))"
    if "params ''cmd'' = Some (''speed'' # cs)" "params ''value'' = None"
    using that by (simp add: handle_control_command_def u)
  have b: "handle_control_command params now robot_node = (Raised e, robot_node)"
    if "params ''cmd'' = Some (''speed'' # cs)" "params ''value'' = Some (v # vs)"
      "py_int v = Inl e"
    using that by (simp add: handle_control_command_def)
  have c: "handle_control_command params now (Some s) =
        (Response 200 (SpeedSetTo p),
         Some (s\<lparr>last_command_time := now, current_speed := spec_clamp p 0 100\<rparr>))"
    if "params ''cmd'' = Some (''speed'' # cs)" "params ''value'' = Some (v # vs)"
      "py_int v = Inr p"
    using that
    by (simp add: handle_control_command_def set_speed_def update_command_time_def
        spec_clamp_def max_def min_def)
  from u a b c show ?thesis by blast
qed

theorem speed_argument_handling_witness:
  "[''cmd'' \<mapsto> [''speed''], ''value'' \<mapsto> [''abc'']] ''cmd'' = Some [''speed'']
   \<and> [''cmd'' \<mapsto> [''speed''], ''value'' \<mapsto> [''abc'']] ''value'' = Some [''abc'']
   \<and> py_int ''abc'' = Inl ValueError
   \<and> handle_control_command [''cmd'' \<mapsto> [''speed''], ''value'' \<mapsto> [''abc'']] 5 (Some cruising_robot) =
        (Raised ValueError, Some cruising_robot)
   \<and> py_int ''150'' = Inr 150
   \<and> handle_control_command [''cmd'' \<mapsto> [''speed''], ''value'' \<mapsto> [''150'']] 5 (Some cruising_robot) =
        (Response 200 (SpeedSetTo 150),
         Some (cruising_robot\<lparr>last_command_time := 5, current_speed := 100\<rparr>))
   \<and> [''cmd'' \<mapsto> [''speed'']] ''value'' = None
   \<and> handle_control_command [''cmd'' \<mapsto> [''speed'']] 5 (Some cruising_robot) =
        (Response 200 (CommandExecuted ''speed''),
         Some (cruising_robot\<lparr>console := console cruising_robot @ [Warn ''Unknown command: speed'']\<rparr>))"
proof -
  let ?bad = "[''cmd'' \<mapsto> [''speed''], ''value'' \<mapsto> [''abc'']]"
  let ?big = "[''cmd'' \<mapsto> [''speed''], ''value'' \<mapsto> [''150'']]"
  let ?none = "[''cmd'' \<mapsto> [''speed'']] :: string \<rightharpoonup> string list"
  have k: "?bad ''cmd'' = Some [''speed'']" "?bad ''value'' = Some [''abc'']"
    "?big ''cmd'' = Some [''speed'']" "?big ''value'' = Some [''150'']"
    "?none ''cmd'' = Some [''speed'']" "?none ''value'' = None"
    by simp_all
  from speed_argument_handling
      [of ?bad "[]" 5 cruising_robot "''abc''" "[]" ValueError "Some cruising_robot" 0]
    k(1,2) py_int_examples(2)
  have a: "handle_control_command ?bad 5 (Some cruising_robot) = (Raised ValueError, Some cruising_robot)"
    by blast
  from speed_argument_handling
      [of ?big "[]" 5 cruising_robot "''150''" "[]" ValueError "Some cruising_robot" 150]
    k(3,4) py_int_examples(1)
  have b: "handle_control_command ?big 5 (Some cruising_robot) =
        (Response 200 (SpeedSetTo 150),
         Some (cruising_robot\<lparr>last_command_time := 5, current_speed := 100\<rparr>))"
    by (simp add: spec_clamp_def)
  from speed_argument_handling
      [of ?none "[]" 5 cruising_robot "''abc''" "[]" ValueError "Some cruising_robot" 0]
    k(5,6)
  have c: "handle_control_command ?none 5 (Some cruising_robot) =
        (Response 200 (CommandExecuted ''speed''),
         Some (cruising_robot\<lparr>console := console cruising_robot @ [Warn ''Unknown command: speed'']\<rparr>))"
    by blast
  from a b c k py_int_examples show ?thesis by blast
qed



end
